theory Spec2Isabelle
  imports Main "HOL-Library.Sublist" "HOL-Library.Word"
begin

unbundle bit_operations_syntax

section \<open>JavaScript values and string built-ins\<close>

text \<open>
  The cloud function of \<^verbatim>\<open>src/index.js\<close> reads tweets, decodes each tweet text as a
  YAML document (js-yaml, failsafe schema), turns the document into an event or bulletin
  object and hashes the raw tweet texts to detect updates. Texts are modelled as byte
  strings (the UTF-8 encoding that the hash is fed with).

  Under the failsafe schema a decoded document is built from strings, sequences and
  mappings only; an empty node is \<open>null\<close> and an empty text gives \<open>undefined\<close>.
  \<open>Func\<close> stands for a built-in method found on a prototype (reading \<open>sub\<close> or
  \<open>link\<close> from a string finds \<open>String.prototype.sub\<close> and
  \<open>String.prototype.link\<close>).
\<close>

datatype jsval =
    Undefined
  | Null
  | Str string
  | Arr "jsval list"
  | Obj "(string \<times> jsval) list"
  | Func string

text \<open>An engine-made message (its wording depends on the engine) or one written in the source.\<close>

datatype message = Message string | EngineMessage

record mark =
  position :: nat
  line :: nat
  column :: nat

datatype js_error =
    YAMLException string "mark option"
  | TypeError message
  | Error message

text \<open>\<open>ToBoolean\<close>, as used by \<open>!\<close>, \<open>&&\<close>, \<open>||\<close> and \<open>if\<close>.\<close>

fun truthy :: "jsval \<Rightarrow> bool" where
  "truthy Undefined = False"
| "truthy Null = False"
| "truthy (Str s) = (s \<noteq> [])"
| "truthy (Arr _) = True"
| "truthy (Obj _) = True"
| "truthy (Func _) = True"

text \<open>
  A destructuring pattern \<open>{ a, b } = v\<close> first requires \<open>v\<close> to be neither
  \<open>undefined\<close> nor \<open>null\<close> (a \<open>TypeError\<close> otherwise), then reads the properties.
\<close>

fun requireObjectCoercible :: "jsval \<Rightarrow> js_error + jsval" where
  "requireObjectCoercible Undefined = Inl (TypeError EngineMessage)"
| "requireObjectCoercible Null = Inl (TypeError EngineMessage)"
| "requireObjectCoercible v = Inr v"

text \<open>
  Reading a property: a mapping gives its entry; a string gives the two legacy methods
  among the names the source reads; anything else gives \<open>undefined\<close>.
\<close>

fun getProp :: "jsval \<Rightarrow> string \<Rightarrow> jsval" where
  "getProp (Obj kvs) k = (case map_of kvs k of None \<Rightarrow> Undefined | Some v \<Rightarrow> v)"
| "getProp (Str s) k = (if k = ''sub'' \<or> k = ''link'' then Func k else Undefined)"
| "getProp v k = Undefined"

text \<open>A default in a destructuring pattern (\<open>times = []\<close>) replaces \<open>undefined\<close> only.\<close>

fun orDefault :: "jsval \<Rightarrow> jsval \<Rightarrow> jsval" where
  "orDefault Undefined d = d"
| "orDefault v d = v"

text \<open>
  \<open>for (... of v)\<close>: arrays and strings are iterable (a string yields its characters),
  the other values are not (a \<open>TypeError\<close>).
\<close>

fun iterate :: "jsval \<Rightarrow> js_error + jsval list" where
  "iterate (Arr vs) = Inr vs"
| "iterate (Str s) = Inr (map (\<lambda>c. Str [c]) s)"
| "iterate v = Inl (TypeError EngineMessage)"

subsection \<open>\<open>String.prototype.trim\<close>\<close>

text \<open>ECMAScript's WhiteSpace and LineTerminator code points, in UTF-8.\<close>

definition whiteSpace :: "string list" where
  "whiteSpace =
    [[CHR 0x09], [CHR 0x0A], [CHR 0x0B], [CHR 0x0C], [CHR 0x0D], [CHR 0x20],
     [CHR 0xC2, CHR 0xA0],
     [CHR 0xE1, CHR 0x9A, CHR 0x80],
     [CHR 0xE2, CHR 0x80, CHR 0x80], [CHR 0xE2, CHR 0x80, CHR 0x81],
     [CHR 0xE2, CHR 0x80, CHR 0x82], [CHR 0xE2, CHR 0x80, CHR 0x83],
     [CHR 0xE2, CHR 0x80, CHR 0x84], [CHR 0xE2, CHR 0x80, CHR 0x85],
     [CHR 0xE2, CHR 0x80, CHR 0x86], [CHR 0xE2, CHR 0x80, CHR 0x87],
     [CHR 0xE2, CHR 0x80, CHR 0x88], [CHR 0xE2, CHR 0x80, CHR 0x89],
     [CHR 0xE2, CHR 0x80, CHR 0x8A],
     [CHR 0xE2, CHR 0x80, CHR 0xA8], [CHR 0xE2, CHR 0x80, CHR 0xA9],
     [CHR 0xE2, CHR 0x80, CHR 0xAF],
     [CHR 0xE2, CHR 0x81, CHR 0x9F],
     [CHR 0xE3, CHR 0x80, CHR 0x80],
     [CHR 0xEF, CHR 0xBB, CHR 0xBF]]"

text \<open>The text left once one leading sequence of \<open>ws\<close> is dropped, if the text starts with one.\<close>

definition stripOne :: "string list \<Rightarrow> string \<Rightarrow> string option" where
  "stripOne ws s =
     (case find (\<lambda>w. w \<noteq> [] \<and> prefix w s) ws of
        None \<Rightarrow> None
      | Some w \<Rightarrow> Some (drop (length w) s))"

function stripLeading :: "string list \<Rightarrow> string \<Rightarrow> string" where
  "stripLeading ws s = (case stripOne ws s of None \<Rightarrow> s | Some r \<Rightarrow> stripLeading ws r)"
  by pat_completeness auto
termination
  by (relation "measure (\<lambda>(ws, s). length s)")
     (auto simp: stripOne_def find_Some_iff prefix_def split: option.splits)

declare stripLeading.simps [simp del]

definition trimStart :: "string \<Rightarrow> string" where
  "trimStart s = stripLeading whiteSpace s"

definition trimEnd :: "string \<Rightarrow> string" where
  "trimEnd s = rev (stripLeading (map rev whiteSpace) (rev s))"

definition trim :: "string \<Rightarrow> string" where
  "trim s = trimEnd (trimStart s)"

text \<open>
  \<open>descriptiveRaw.trim()\<close>: only a string has a callable \<open>trim\<close>; on \<open>null\<close> the
  property read fails, on a sequence or mapping the call of a non-function fails.
\<close>

fun callTrim :: "jsval \<Rightarrow> js_error + string" where
  "callTrim (Str s) = Inr (trim s)"
| "callTrim v = Inl (TypeError EngineMessage)"

subsection \<open>\<open>String.prototype.replace\<close> with a string pattern\<close>

fun indexOf :: "string \<Rightarrow> string \<Rightarrow> nat option" where
  "indexOf [] pat = (if pat = [] then Some 0 else None)"
| "indexOf (c # cs) pat =
     (if prefix pat (c # cs) then Some 0 else map_option Suc (indexOf cs pat))"

text \<open>
  \<open>GetSubstitution\<close> for a match without capture groups: \<open>$$\<close>, \<open>$&\<close>, \<open>$`\<close> and
  \<open>$'\<close> are patterns, every other character is copied.
\<close>

fun getSubstitution :: "string \<Rightarrow> string \<Rightarrow> string \<Rightarrow> string \<Rightarrow> string" where
  "getSubstitution matched preceding following [] = []"
| "getSubstitution matched preceding following [c] = [c]"
| "getSubstitution matched preceding following (c # d # r) =
     (if c = CHR ''$'' \<and> d = CHR ''$'' then CHR ''$'' # getSubstitution matched preceding following r
      else if c = CHR ''$'' \<and> d = CHR ''&'' then matched @ getSubstitution matched preceding following r
      else if c = CHR ''$'' \<and> d = CHR 0x60 then preceding @ getSubstitution matched preceding following r
      else if c = CHR ''$'' \<and> d = CHR 0x27 then following @ getSubstitution matched preceding following r
      else c # getSubstitution matched preceding following (d # r))"

text \<open>Only the first occurrence of a string pattern is replaced.\<close>

definition replace :: "string \<Rightarrow> string \<Rightarrow> string \<Rightarrow> string" where
  "replace s searchValue replaceValue =
     (case indexOf s searchValue of
        None \<Rightarrow> s
      | Some pos \<Rightarrow>
          (let preceding = take pos s;
               following = drop (pos + length searchValue) s
           in preceding @ getSubstitution searchValue preceding following replaceValue @ following))"

section \<open>The transforms of \<^verbatim>\<open>src/index.js\<close>\<close>

text \<open>
  A computation that may throw returns \<open>Inl\<close> of the error thrown; \<open>andThen\<close> is
  sequencing (the rest does not run after a throw).
\<close>

definition andThen :: "js_error + 'a \<Rightarrow> ('a \<Rightarrow> js_error + 'b) \<Rightarrow> js_error + 'b" where
  "andThen m f = (case m of Inl e \<Rightarrow> Inl e | Inr v \<Rightarrow> f v)"

text \<open>
  \<open>yamlSafeLoad\<close> (js-yaml) and \<open>new URL\<close> (Node) are libraries outside the repository:
  the decoder is a parameter \<open>load\<close> that gives the decoded document or the reason and
  mark of the \<open>YAMLException\<close> it throws, and \<open>validURL v\<close> says that \<open>new URL(v)\<close>
  does not throw.
\<close>

type_synonym yamlSafeLoad = "string \<Rightarrow> (string \<times> mark option) + jsval"

definition yamlLoad :: "yamlSafeLoad \<Rightarrow> string \<Rightarrow> js_error + jsval" where
  "yamlLoad load tweetText =
     (case load tweetText of
        Inl (reason, mark) \<Rightarrow> Inl (YAMLException reason mark)
      | Inr document \<Rightarrow> Inr document)"

text \<open>
  Objects are mutable and shared: the event object returned by a transform is pushed to the
  dataset and kept as the last primary, and a continuation changes it in place. An object
  is therefore a reference (an index) into a store, which every transform takes and
  returns. The result of a transform is the triple of the source (element, last element,
  error descriptor, with \<open>None\<close> for \<open>null\<close>) together with the store.
\<close>

record continuable =
  descriptive :: string

record event = continuable +
  title :: jsval
  subtitle :: jsval
  color :: jsval
  location :: jsval
  times :: jsval

record descriptor =
  error :: string
  type :: string
  reason :: message
  mark :: "mark option"
  tweetId :: "string option"

type_synonym 'e result = "'e list \<times> nat option \<times> nat option \<times> descriptor option"

type_synonym 'e transform =
  "'e list \<Rightarrow> string \<Rightarrow> string \<Rightarrow> nat option \<Rightarrow> js_error + 'e result"

text \<open>The loop \<open>for (const { day, time } of times)\<close> of \<open>eventsTransform\<close>.\<close>

fun checkTimes :: "jsval list \<Rightarrow> js_error + unit" where
  "checkTimes [] = Inr ()"
| "checkTimes (entry # rest) =
     (case requireObjectCoercible entry of
        Inl e \<Rightarrow> Inl e
      | Inr _ \<Rightarrow>
          if \<not> truthy (getProp entry ''day'') \<or> \<not> truthy (getProp entry ''time'')
          then Inl (TypeError (Message ''Day/date or time missing''))
          else checkTimes rest)"

text \<open>The \<open>try\<close> block of \<open>eventsTransform\<close>.\<close>

definition eventsTry :: "yamlSafeLoad \<Rightarrow> event list \<Rightarrow> string \<Rightarrow> nat option
    \<Rightarrow> js_error + event result" where
  "eventsTry load store tweetText lastNonContinuationEvent =
     andThen (yamlLoad load tweetText) (\<lambda>eventDocument.
     andThen (requireObjectCoercible eventDocument) (\<lambda>_.
       let title = getProp eventDocument ''title'';
           subtitle = getProp eventDocument ''sub'';
           color = getProp eventDocument ''color'';
           location = getProp eventDocument ''loc'';
           times = orDefault (getProp eventDocument ''times'') (Arr []);
           descriptiveRaw = orDefault (getProp eventDocument ''desc'') (Str [])
       in
     andThen (callTrim descriptiveRaw) (\<lambda>descriptive.
       let continuation = (\<not> truthy title \<and> descriptive \<noteq> []) in
       if \<not> continuation then
         if \<not> truthy title then Inl (TypeError (Message ''Title missing''))
         else
           andThen (iterate times) (\<lambda>entries.
           andThen (checkTimes entries) (\<lambda>_.
             let event = \<lparr> descriptive = descriptive, title = title, subtitle = subtitle,
                           color = color, location = location, times = times \<rparr>;
                 ref = length store
             in Inr (store @ [event], Some ref, Some ref, None)))
       else
         (case lastNonContinuationEvent of
            Some ref \<Rightarrow>
              let separator = (if descriptive \<noteq> [] then [CHR 0x0A, CHR 0x0A] else [])
              in Inr (store [ref := (store ! ref)
                        \<lparr> descriptive := continuable.descriptive (store ! ref) @ separator @ descriptive \<rparr>],
                      None, Some ref, None)
          | None \<Rightarrow> Inl (Error (Message ''Continuation tweet with no primary''))))))"

text \<open>The \<open>catch\<close> block, the same in both transforms of this file.\<close>

definition catchBlock :: "js_error \<Rightarrow> string \<Rightarrow> descriptor" where
  "catchBlock err tweetId' =
     (case err of
        YAMLException r m \<Rightarrow>
          \<lparr> error = ''Invalid YAML'', type = ''YAMLException'', reason = Message r,
            mark = m, tweetId = Some tweetId' \<rparr>
      | TypeError msg \<Rightarrow>
          \<lparr> error = ''Invalid structure'', type = ''TypeError'', reason = msg,
            mark = None, tweetId = Some tweetId' \<rparr>
      | Error msg \<Rightarrow>
          \<lparr> error = ''Unexpected error'', type = ''Error'', reason = msg,
            mark = None, tweetId = Some tweetId' \<rparr>)"

definition eventsTransform :: "yamlSafeLoad \<Rightarrow> event transform" where
  "eventsTransform load store tweetId' tweetText lastNonContinuationEvent =
     (case eventsTry load store tweetText lastNonContinuationEvent of
        Inr r \<Rightarrow> Inr r
      | Inl err \<Rightarrow> Inr (store, None, None, Some (catchBlock err tweetId')))"

record bulletin =
  date :: jsval
  title :: jsval
  subtitle :: jsval
  link :: jsval
  inserts :: jsval

text \<open>The loop \<open>for (const { title, link } of inserts)\<close> of \<open>bulletinsTransform\<close>.\<close>

fun checkInserts :: "(jsval \<Rightarrow> bool) \<Rightarrow> jsval list \<Rightarrow> js_error + unit" where
  "checkInserts validURL [] = Inr ()"
| "checkInserts validURL (entry # rest) =
     (case requireObjectCoercible entry of
        Inl e \<Rightarrow> Inl e
      | Inr _ \<Rightarrow>
          if \<not> truthy (getProp entry ''title'')
          then Inl (TypeError (Message ''Insert title missing''))
          else if \<not> validURL (getProp entry ''link'')
          then Inl (TypeError (Message ''Insert link missing or invalid''))
          else checkInserts validURL rest)"

definition bulletinsTry :: "yamlSafeLoad \<Rightarrow> (jsval \<Rightarrow> bool) \<Rightarrow> bulletin list \<Rightarrow> string
    \<Rightarrow> js_error + bulletin result" where
  "bulletinsTry load validURL store tweetText =
     andThen (yamlLoad load tweetText) (\<lambda>bulletinDocument.
     andThen (requireObjectCoercible bulletinDocument) (\<lambda>_.
       let date = getProp bulletinDocument ''date'';
           title = getProp bulletinDocument ''title'';
           subtitle = getProp bulletinDocument ''sub'';
           link = getProp bulletinDocument ''link'';
           inserts = orDefault (getProp bulletinDocument ''inserts'') (Arr [])
       in
       if \<not> truthy date \<or> \<not> truthy title
       then Inl (TypeError (Message ''Bulletin date or title missing''))
       else if \<not> validURL link
       then Inl (TypeError (Message ''Bulletin link missing or invalid''))
       else
         andThen (iterate inserts) (\<lambda>entries.
         andThen (checkInserts validURL entries) (\<lambda>_.
           let bulletin = \<lparr> date = date, title = title, subtitle = subtitle,
                            link = link, inserts = inserts \<rparr>
           in Inr (store @ [bulletin], Some (length store), None, None)))))"

definition bulletinsTransform :: "yamlSafeLoad \<Rightarrow> (jsval \<Rightarrow> bool) \<Rightarrow> bulletin transform" where
  "bulletinsTransform load validURL store tweetId' tweetText lastNonContinuationElement =
     (case bulletinsTry load validURL store tweetText of
        Inr r \<Rightarrow> Inr r
      | Inl err \<Rightarrow> Inr (store, None, None, Some (catchBlock err tweetId')))"

section \<open>The hash object\<close>

text \<open>
  \<open>createHash('md5')\<close> of Node's \<open>crypto\<close> gives a streaming MD5 (RFC 1321): the digest
  is that of all the data passed to \<open>update\<close>, one piece after the other.
\<close>

type_synonym u32 = "32 word"

definition md5_s :: "nat list" where
  "md5_s =
    [7, 12, 17, 22, 7, 12, 17, 22, 7, 12, 17, 22, 7, 12, 17, 22,
     5, 9, 14, 20, 5, 9, 14, 20, 5, 9, 14, 20, 5, 9, 14, 20,
     4, 11, 16, 23, 4, 11, 16, 23, 4, 11, 16, 23, 4, 11, 16, 23,
     6, 10, 15, 21, 6, 10, 15, 21, 6, 10, 15, 21, 6, 10, 15, 21]"

definition md5_K :: "u32 list" where
  "md5_K =
    [0xd76aa478, 0xe8c7b756, 0x242070db, 0xc1bdceee,
     0xf57c0faf, 0x4787c62a, 0xa8304613, 0xfd469501,
     0x698098d8, 0x8b44f7af, 0xffff5bb1, 0x895cd7be,
     0x6b901122, 0xfd987193, 0xa679438e, 0x49b40821,
     0xf61e2562, 0xc040b340, 0x265e5a51, 0xe9b6c7aa,
     0xd62f105d, 0x02441453, 0xd8a1e681, 0xe7d3fbc8,
     0x21e1cde6, 0xc33707d6, 0xf4d50d87, 0x455a14ed,
     0xa9e3e905, 0xfcefa3f8, 0x676f02d9, 0x8d2a4c8a,
     0xfffa3942, 0x8771f681, 0x6d9d6122, 0xfde5380c,
     0xa4beea44, 0x4bdecfa9, 0xf6bb4b60, 0xbebfbc70,
     0x289b7ec6, 0xeaa127fa, 0xd4ef3085, 0x04881d05,
     0xd9d4d039, 0xe6db99e5, 0x1fa27cf8, 0xc4ac5665,
     0xf4292244, 0x432aff97, 0xab9423a7, 0xfc93a039,
     0x655b59c3, 0x8f0ccc92, 0xffeff47d, 0x85845dd1,
     0x6fa87e4f, 0xfe2ce6e0, 0xa3014314, 0x4e0811a1,
     0xf7537e82, 0xbd3af235, 0x2ad7d2bb, 0xeb86d391]"

definition leftrotate :: "u32 \<Rightarrow> nat \<Rightarrow> u32" where
  "leftrotate x c = push_bit c x OR drop_bit (32 - c) x"

text \<open>The \<open>n\<close> low bytes of a word, least significant first, and the word of such bytes.\<close>

fun toBytesLE :: "nat \<Rightarrow> 'a::len word \<Rightarrow> 8 word list" where
  "toBytesLE 0 w = []"
| "toBytesLE (Suc n) w = ucast w # toBytesLE n (drop_bit 8 w)"

fun fromBytesLE :: "8 word list \<Rightarrow> u32" where
  "fromBytesLE [] = 0"
| "fromBytesLE (b # bs) = ucast b OR push_bit 8 (fromBytesLE bs)"

text \<open>Padding: a one bit, zeros up to 56 modulo 64 bytes, the length in bits on 64 bits.\<close>

definition md5_pad :: "8 word list \<Rightarrow> 8 word list" where
  "md5_pad m =
     m @ [0x80] @ replicate ((119 - length m mod 64) mod 64) 0
       @ toBytesLE 8 (of_nat (8 * length m) :: 64 word)"

text \<open>Cutting a list into pieces of \<open>n\<close> elements.\<close>

function chunks :: "nat \<Rightarrow> 'a list \<Rightarrow> 'a list list" where
  "chunks n xs = (if n = 0 \<or> xs = [] then [] else take n xs # chunks n (drop n xs))"
  by pat_completeness auto
termination
  by (relation "measure (\<lambda>(n, xs). length xs)") auto

declare chunks.simps [simp del]

text \<open>One of the 64 operations on the state \<open>(A, B, C, D)\<close> with the block's 16 words.\<close>

definition md5_step :: "u32 list \<Rightarrow> u32 \<times> u32 \<times> u32 \<times> u32 \<Rightarrow> nat \<Rightarrow> u32 \<times> u32 \<times> u32 \<times> u32" where
  "md5_step M st i =
     (case st of (A, B, C, D) \<Rightarrow>
        let (F, g) =
              (if i < 16 then ((B AND C) OR (NOT B AND D), i)
               else if i < 32 then ((D AND B) OR (NOT D AND C), (5 * i + 1) mod 16)
               else if i < 48 then (B XOR C XOR D, (3 * i + 5) mod 16)
               else (C XOR (B OR NOT D), (7 * i) mod 16));
            F' = F + A + md5_K ! i + M ! g
        in (D, B + leftrotate F' (md5_s ! i), B, C))"

definition md5_block :: "u32 \<times> u32 \<times> u32 \<times> u32 \<Rightarrow> 8 word list \<Rightarrow> u32 \<times> u32 \<times> u32 \<times> u32" where
  "md5_block h block =
     (let M = map fromBytesLE (chunks 4 block) in
      case (h, foldl (md5_step M) h [0..<64]) of
        ((a0, b0, c0, d0), (A, B, C, D)) \<Rightarrow> (a0 + A, b0 + B, c0 + C, d0 + D))"

definition md5 :: "8 word list \<Rightarrow> 8 word list" where
  "md5 m =
     (case foldl md5_block (0x67452301, 0xefcdab89, 0x98badcfe, 0x10325476)
             (chunks 64 (md5_pad m)) of
        (a0, b0, c0, d0) \<Rightarrow> concat (map (toBytesLE 4) [a0, b0, c0, d0]))"

definition hexDigit :: "nat \<Rightarrow> char" where
  "hexDigit n = ''0123456789abcdef'' ! n"

definition hex :: "8 word list \<Rightarrow> string" where
  "hex bs = concat (map (\<lambda>b. [hexDigit (unat b div 16), hexDigit (unat b mod 16)]) bs)"

text \<open>
  The hash object is the sequence of the data its \<open>update\<close> was called with, in order;
  \<open>digest('hex')\<close> is the MD5 of their concatenation, in lowercase hexadecimal.
\<close>

type_synonym hash = "string list"

definition createHash :: hash where
  "createHash = []"

definition update :: "hash \<Rightarrow> string \<Rightarrow> hash" where
  "update h data = h @ [data]"

definition digest :: "hash \<Rightarrow> string" where
  "digest h = hex (md5 (map (\<lambda>c. of_nat (of_char c)) (concat h)))"

section \<open>The collection loop and the publish decision of \<^verbatim>\<open>src/index.js\<close>\<close>

text \<open>
  One response of the Twitter collections endpoint: the timeline (the tweet ids, in order)
  and the lookup table of the tweets, each with its raw text and its links (shortened
  and expanded URL). A response is taken as the endpoint gives it: every tweet of the
  table has a text and a list of links (a missing timeline is the empty one, by the
  default of the source); what the model keeps is that an id of the timeline may be
  missing from the table.
\<close>

record tweetObject =
  full_text :: string
  urls :: "(string \<times> string) list"

record entries =
  timeline :: "string list"
  tweets :: "string \<rightharpoonup> tweetObject"

text \<open>
  The arrays and the hash object of one collection, with the store of the objects that
  the dataset refers to.
\<close>

record 'e collection =
  heap :: "'e list"
  dataset :: "nat list"
  errors :: "descriptor list"
  hash :: hash

text \<open>The inner loop over \<open>tweetLinks\<close>: one \<open>replace\<close> for each link, in order.\<close>

definition tweetTextExpandedLinks :: "string \<Rightarrow> (string \<times> string) list \<Rightarrow> string" where
  "tweetTextExpandedLinks tweetText tweetLinks =
     foldl (\<lambda>text (linkShortened, linkExpanded). replace text linkShortened linkExpanded)
       tweetText tweetLinks"

text \<open>
  The body of the loop over the timeline. Reading a tweet that the lookup table does not
  have fails (destructuring \<open>undefined\<close>), and so would a transform that throws: there is
  no \<open>try\<close> inside the loop, the error reaches the \<open>catch\<close> of \<open>agent\<close>.
\<close>

definition processTweet :: "'e transform \<Rightarrow> (string \<rightharpoonup> tweetObject)
    \<Rightarrow> 'e collection \<times> nat option \<Rightarrow> string \<Rightarrow> js_error + ('e collection \<times> nat option)" where
  "processTweet transform tweetTable st tweetId' =
     (case st of (c, lastNonContinuationElement) \<Rightarrow>
      case tweetTable tweetId' of
        None \<Rightarrow> Inl (TypeError EngineMessage)
      | Some tw \<Rightarrow>
          andThen (transform (heap c) tweetId'
                     (tweetTextExpandedLinks (full_text tw) (urls tw))
                     lastNonContinuationElement)
            (\<lambda>(heap', element, lastNonContinuationElement', errorDescriptor).
               Inr (\<lparr> heap = heap',
                      dataset = (case element of Some r \<Rightarrow> dataset c @ [r] | None \<Rightarrow> dataset c),
                      errors = (case errorDescriptor of
                                  Some d \<Rightarrow> errors c @ [d] | None \<Rightarrow> errors c),
                      hash = update (hash c) (full_text tw) \<rparr>,
                    lastNonContinuationElement')))"

fun processTimeline :: "'e transform \<Rightarrow> (string \<rightharpoonup> tweetObject)
    \<Rightarrow> 'e collection \<times> nat option \<Rightarrow> string list \<Rightarrow> js_error + ('e collection \<times> nat option)" where
  "processTimeline transform tweetTable st [] = Inr st"
| "processTimeline transform tweetTable st (tweetId' # rest) =
     (case processTweet transform tweetTable st tweetId' of
        Inl e \<Rightarrow> Inl e
      | Inr st' \<Rightarrow> processTimeline transform tweetTable st' rest)"

text \<open>One round of the outer loop: empty arrays, a fresh hash, no last primary.\<close>

definition processCollection :: "'e transform \<Rightarrow> entries \<Rightarrow> js_error + 'e collection" where
  "processCollection transform response =
     andThen (processTimeline transform (tweets response)
                (\<lparr> heap = [], dataset = [], errors = [], hash = createHash \<rparr>, None)
                (timeline response))
       (\<lambda>(c, _). Inr c)"

text \<open>The dataset as it is serialised: the objects the references point to.\<close>

definition elements :: "'e collection \<Rightarrow> 'e list" where
  "elements c = map (\<lambda>r. heap c ! r) (dataset c)"

text \<open>
  The previously published digests are read by position from the decoded JSON; a missing
  position is \<open>undefined\<close>. \<open>!==\<close> against a computed digest (a string) is false only
  for the same string (a published value that is not a string, such as a number, differs
  from every digest, as \<open>null\<close> does here).
\<close>

definition nthOrUndefined :: "jsval list \<Rightarrow> nat \<Rightarrow> jsval" where
  "nthOrUndefined vs i = (if i < length vs then vs ! i else Undefined)"

definition differs :: "jsval \<Rightarrow> string \<Rightarrow> bool" where
  "differs published computed = (published \<noteq> Str computed)"

fun join :: "string \<Rightarrow> string list \<Rightarrow> string" where
  "join sep [] = []"
| "join sep [x] = x"
| "join sep (x # y # r) = x @ sep @ join sep (y # r)"

record computedGeneratedContent =
  regularEvents :: "event list"
  specialEvents :: "event list"
  bulletins :: "bulletin list"
  digests :: "string list"
  regularEventsErrors :: "descriptor list"
  specialEventsErrors :: "descriptor list"
  bulletinsErrors :: "descriptor list"

text \<open>
  What one run does to the outside, once the secrets, the collections and the published
  file have been read: the request to write the file (commit message, content, version
  token of the file read), the log of the content in a dry run, the message that nothing
  changed, or the top-level \<open>catch\<close>. The content is the object handed to
  \<open>JSON.stringify\<close>.
\<close>

datatype 'c outcome =
    Commit string 'c string
  | Logged 'c
  | NoUpdates
  | Failed js_error

definition agent :: "yamlSafeLoad \<Rightarrow> (jsval \<Rightarrow> bool) \<Rightarrow> entries \<Rightarrow> entries \<Rightarrow> entries
    \<Rightarrow> jsval list \<Rightarrow> string \<Rightarrow> computedGeneratedContent outcome" where
  "agent load validURL regularEventsResponse specialEventsResponse bulletinsResponse
     publishedDigests generatedContentSha1 =
     (case
        andThen (processCollection (eventsTransform load) regularEventsResponse) (\<lambda>regular.
        andThen (processCollection (eventsTransform load) specialEventsResponse) (\<lambda>special.
        andThen (processCollection (bulletinsTransform load validURL) bulletinsResponse) (\<lambda>bulls.
          let regularEventsTimelineComputedDigest = digest (hash regular);
              specialEventsTimelineComputedDigest = digest (hash special);
              bulletinsTimelineComputedDigest = digest (hash bulls);
              regularEventsCollectionUpdated =
                differs (nthOrUndefined publishedDigests 0) regularEventsTimelineComputedDigest;
              specialEventsCollectionUpdated =
                differs (nthOrUndefined publishedDigests 1) specialEventsTimelineComputedDigest;
              bulletinsCollectionUpdated =
                differs (nthOrUndefined publishedDigests 2) bulletinsTimelineComputedDigest;
              collectionsUpdated =
                (regularEventsCollectionUpdated \<or> specialEventsCollectionUpdated \<or>
                 bulletinsCollectionUpdated)
          in
          if collectionsUpdated then
            let updatedCollections =
                  (if regularEventsCollectionUpdated then [''regular events''] else []) @
                  (if specialEventsCollectionUpdated then [''special events''] else []) @
                  (if bulletinsCollectionUpdated then [''bulletins''] else []);
                content =
                  \<lparr> regularEvents = elements regular,
                    specialEvents = elements special,
                    bulletins = elements bulls,
                    digests = [regularEventsTimelineComputedDigest,
                               specialEventsTimelineComputedDigest,
                               bulletinsTimelineComputedDigest],
                    regularEventsErrors = errors regular,
                    specialEventsErrors = errors special,
                    bulletinsErrors = errors bulls \<rparr>;
                githubCommitMessage =
                  ''Generated content data: Updates in '' @ join '', '' updatedCollections
            in Inr (Commit githubCommitMessage content generatedContentSha1)
          else Inr NoUpdates)))
      of Inl err \<Rightarrow> Failed err | Inr out \<Rightarrow> out)"

section \<open>The revision with announcements and a dry run\<close>

text \<open>
  The second file of \<^verbatim>\<open>src/unnamed/part_000\<close> is a revision of \<^verbatim>\<open>src/index.js\<close>
  with a fourth collection (announcements), the continuation and the \<open>catch\<close> block
  moved into \<open>handleContinuation\<close> and \<open>prepare\<close>, and a \<open>dryRun\<close> option. Its
  definitions that share a name with one of \<^verbatim>\<open>src/index.js\<close> carry the suffix
  \<open>_v2\<close>.
\<close>

definition handleContinuation :: "('a continuable_scheme) list \<Rightarrow> nat option \<Rightarrow> string
    \<Rightarrow> js_error + ('a continuable_scheme) result" where
  "handleContinuation store lastNonContinuation descriptive' =
     (case lastNonContinuation of
        Some ref \<Rightarrow>
          let separator = (if descriptive' \<noteq> [] then [CHR 0x0A, CHR 0x0A] else [])
          in Inr (store [ref := (store ! ref)
                    \<lparr> descriptive := descriptive (store ! ref) @ separator @ descriptive' \<rparr>],
                  None, Some ref, None)
      | None \<Rightarrow> Inl (Error (Message ''Continuation tweet with no primary'')))"

text \<open>\<open>prepare(error, tweetId)\<close>; \<open>bulletinsTransform\<close> calls it without a tweet id.\<close>

definition prepare :: "js_error \<Rightarrow> string option \<Rightarrow> 'e list \<Rightarrow> 'e result" where
  "prepare err tweetId' store =
     (let descriptor =
        (case err of
           YAMLException r m \<Rightarrow>
             \<lparr> error = ''Invalid YAML'', type = ''YAMLException'', reason = Message r,
               mark = m, tweetId = tweetId' \<rparr>
         | TypeError msg \<Rightarrow>
             \<lparr> error = ''Invalid structure'', type = ''TypeError'', reason = msg,
               mark = None, tweetId = tweetId' \<rparr>
         | Error msg \<Rightarrow>
             \<lparr> error = ''Unexpected error'', type = ''Error'', reason = msg,
               mark = None, tweetId = tweetId' \<rparr>)
      in (store, None, None, Some descriptor))"

definition eventsTry_v2 :: "yamlSafeLoad \<Rightarrow> event list \<Rightarrow> string \<Rightarrow> nat option
    \<Rightarrow> js_error + event result" where
  "eventsTry_v2 load store tweetText lastNonContinuationEvent =
     andThen (yamlLoad load tweetText) (\<lambda>eventDocument.
     andThen (requireObjectCoercible eventDocument) (\<lambda>_.
       let title = getProp eventDocument ''title'';
           subtitle = getProp eventDocument ''sub'';
           color = getProp eventDocument ''color'';
           location = getProp eventDocument ''loc'';
           times = orDefault (getProp eventDocument ''times'') (Arr []);
           descriptiveRaw = orDefault (getProp eventDocument ''desc'') (Str [])
       in
     andThen (callTrim descriptiveRaw) (\<lambda>descriptive.
       let continuation = (\<not> truthy title \<and> descriptive \<noteq> []) in
       if \<not> continuation then
         if \<not> truthy title then Inl (TypeError (Message ''Title missing''))
         else
           andThen (iterate times) (\<lambda>entries.
           andThen (checkTimes entries) (\<lambda>_.
             let event = \<lparr> descriptive = descriptive, event.title = title, subtitle = subtitle,
                           color = color, location = location, times = times \<rparr>;
                 ref = length store
             in Inr (store @ [event], Some ref, Some ref, None)))
       else handleContinuation store lastNonContinuationEvent descriptive)))"

definition eventsTransform_v2 :: "yamlSafeLoad \<Rightarrow> event transform" where
  "eventsTransform_v2 load store tweetId' tweetText lastNonContinuationEvent =
     (case eventsTry_v2 load store tweetText lastNonContinuationEvent of
        Inr r \<Rightarrow> Inr r
      | Inl err \<Rightarrow> Inr (prepare err (Some tweetId') store))"

record announcement = continuable +
  title :: jsval
  subtitle :: jsval
  color :: jsval
  youtube :: jsval
  tweet :: jsval

definition announcementsTry :: "yamlSafeLoad \<Rightarrow> announcement list \<Rightarrow> string \<Rightarrow> nat option
    \<Rightarrow> js_error + announcement result" where
  "announcementsTry load store tweetText lastNonContinuationAnnouncement =
     andThen (yamlLoad load tweetText) (\<lambda>announcementDocument.
     andThen (requireObjectCoercible announcementDocument) (\<lambda>_.
       let title = getProp announcementDocument ''title'';
           subtitle = getProp announcementDocument ''sub'';
           color = getProp announcementDocument ''color'';
           youtube = getProp announcementDocument ''youtube'';
           tweet = getProp announcementDocument ''tweet'';
           descriptiveRaw = orDefault (getProp announcementDocument ''desc'') (Str [])
       in
     andThen (callTrim descriptiveRaw) (\<lambda>descriptive.
       let continuation = (\<not> truthy title \<and> descriptive \<noteq> []) in
       if \<not> continuation then
         if \<not> truthy title then Inl (TypeError (Message ''Title missing''))
         else
           let announcement = \<lparr> descriptive = descriptive, title = title, subtitle = subtitle,
                                color = color, youtube = youtube, tweet = tweet \<rparr>;
               ref = length store
           in Inr (store @ [announcement], Some ref, Some ref, None)
       else handleContinuation store lastNonContinuationAnnouncement descriptive)))"

definition announcementsTransform :: "yamlSafeLoad \<Rightarrow> announcement transform" where
  "announcementsTransform load store tweetId' tweetText lastNonContinuationAnnouncement =
     (case announcementsTry load store tweetText lastNonContinuationAnnouncement of
        Inr r \<Rightarrow> Inr r
      | Inl err \<Rightarrow> Inr (prepare err (Some tweetId') store))"

definition bulletinsTransform_v2 :: "yamlSafeLoad \<Rightarrow> (jsval \<Rightarrow> bool) \<Rightarrow> bulletin transform" where
  "bulletinsTransform_v2 load validURL store tweetId' tweetText lastNonContinuationElement =
     (case bulletinsTry load validURL store tweetText of
        Inr r \<Rightarrow> Inr r
      | Inl err \<Rightarrow> Inr (prepare err None store))"

record computedGeneratedContent_v2 =
  announcements :: "announcement list"
  regularEvents :: "event list"
  specialEvents :: "event list"
  bulletins :: "bulletin list"
  digests :: "string list"
  announcementsErrors :: "descriptor list"
  regularEventsErrors :: "descriptor list"
  specialEventsErrors :: "descriptor list"
  bulletinsErrors :: "descriptor list"

text \<open>
  \<open>dryRun\<close> is the option as the first \<open>try\<close> of \<open>agent\<close> leaves it: true when the
  message attribute parses as a truthy JSON value, false otherwise.
\<close>

definition agent_v2 :: "yamlSafeLoad \<Rightarrow> (jsval \<Rightarrow> bool) \<Rightarrow> bool
    \<Rightarrow> entries \<Rightarrow> entries \<Rightarrow> entries \<Rightarrow> entries
    \<Rightarrow> jsval list \<Rightarrow> string \<Rightarrow> computedGeneratedContent_v2 outcome" where
  "agent_v2 load validURL dryRun announcementsResponse regularEventsResponse
     specialEventsResponse bulletinsResponse publishedDigests generatedContentSha1 =
     (case
        andThen (processCollection (announcementsTransform load) announcementsResponse) (\<lambda>anns.
        andThen (processCollection (eventsTransform_v2 load) regularEventsResponse) (\<lambda>regular.
        andThen (processCollection (eventsTransform_v2 load) specialEventsResponse) (\<lambda>special.
        andThen (processCollection (bulletinsTransform_v2 load validURL) bulletinsResponse) (\<lambda>bulls.
          let announcementsTimelineComputedDigest = digest (hash anns);
              regularEventsTimelineComputedDigest = digest (hash regular);
              specialEventsTimelineComputedDigest = digest (hash special);
              bulletinsTimelineComputedDigest = digest (hash bulls);
              announcementsCollectionUpdated =
                differs (nthOrUndefined publishedDigests 0) announcementsTimelineComputedDigest;
              regularEventsCollectionUpdated =
                differs (nthOrUndefined publishedDigests 1) regularEventsTimelineComputedDigest;
              specialEventsCollectionUpdated =
                differs (nthOrUndefined publishedDigests 2) specialEventsTimelineComputedDigest;
              bulletinsCollectionUpdated =
                differs (nthOrUndefined publishedDigests 3) bulletinsTimelineComputedDigest;
              collectionsUpdated =
                (announcementsCollectionUpdated \<or> regularEventsCollectionUpdated \<or>
                 specialEventsCollectionUpdated \<or> bulletinsCollectionUpdated)
          in
          if collectionsUpdated \<or> dryRun then
            let content =
                  \<lparr> announcements = elements anns,
                    regularEvents = elements regular,
                    specialEvents = elements special,
                    bulletins = elements bulls,
                    digests = [announcementsTimelineComputedDigest,
                               regularEventsTimelineComputedDigest,
                               specialEventsTimelineComputedDigest,
                               bulletinsTimelineComputedDigest],
                    announcementsErrors = errors anns,
                    regularEventsErrors = errors regular,
                    specialEventsErrors = errors special,
                    bulletinsErrors = errors bulls \<rparr>
            in
            if \<not> dryRun then
              let updatedCollections =
                    (if announcementsCollectionUpdated then [''announcements''] else []) @
                    (if regularEventsCollectionUpdated then [''regular events''] else []) @
                    (if specialEventsCollectionUpdated then [''special events''] else []) @
                    (if bulletinsCollectionUpdated then [''bulletins''] else []);
                  githubCommitMessage =
                    ''Generated content data: Updates in '' @ join '', '' updatedCollections
              in Inr (Commit githubCommitMessage content generatedContentSha1)
            else Inr (Logged content)
          else Inr NoUpdates))))
      of Inl err \<Rightarrow> Failed err | Inr out \<Rightarrow> out)"

section \<open>Continuation candidates and example inputs\<close>

text \<open>
  The value of the flag \<open>continuation = ! title && descriptive\<close> of the transforms, as a
  property of the decoded document: no title (absent, \<open>null\<close> or empty) and a descriptive
  text that is a string and not empty once trimmed.
\<close>

definition isContinuation :: "jsval \<Rightarrow> bool" where
  "isContinuation document =
     (\<not> truthy (getProp document ''title'') \<and>
      (case callTrim (orDefault (getProp document ''desc'') (Str [])) of
         Inl _ \<Rightarrow> False
       | Inr d \<Rightarrow> d \<noteq> []))"

text \<open>
  Inputs for the examples. \<open>exampleLoad\<close> gives the js-yaml decodings of the documents
  the examples use (with a reason and a mark of the kind js-yaml reports for the
  malformed one); any other text is taken as a plain scalar, which is what the texts
  without YAML syntax used below are. \<open>exampleURL\<close> accepts the one absolute URL of the
  examples; \<open>new URL\<close> rejects \<open>not-a-url\<close>, \<open>nope\<close> and \<open>undefined\<close> as well.
\<close>

definition exampleLoad :: yamlSafeLoad where
  "exampleLoad s =
     (if s = [] then Inr Undefined
      else if s = ''title: A'' @ [CHR 0x0A] @ ''desc: hello''
        then Inr (Obj [(''title'', Str ''A''), (''desc'', Str ''hello'')])
      else if s = ''title: A'' then Inr (Obj [(''title'', Str ''A'')])
      else if s = ''desc: world'' then Inr (Obj [(''desc'', Str ''world'')])
      else if s = ''sub: x'' then Inr (Obj [(''sub'', Str ''x'')])
      else if s = ''title: A'' @ [CHR 0x0A] @ ''times:'' @ [CHR 0x0A] @ ''- day: Mon''
        then Inr (Obj [(''title'', Str ''A''), (''times'', Arr [Obj [(''day'', Str ''Mon'')]])])
      else if s = ''title: [''
        then Inl (''unexpected end of the stream within a flow collection'',
                  Some \<lparr> position = 8, line = 1, column = 0 \<rparr>)
      else if s = ''date: May 3'' @ [CHR 0x0A] @ ''title: B'' @ [CHR 0x0A] @ ''link: not-a-url''
        then Inr (Obj [(''date'', Str ''May 3''), (''title'', Str ''B''),
                       (''link'', Str ''not-a-url'')])
      else if s = ''date: May 3'' @ [CHR 0x0A] @ ''title: B'' @ [CHR 0x0A]
                    @ ''link: https://example.org/b.pdf''
        then Inr (Obj [(''date'', Str ''May 3''), (''title'', Str ''B''),
                       (''link'', Str ''https://example.org/b.pdf'')])
      else if s = ''date: May 3'' @ [CHR 0x0A] @ ''title: B'' @ [CHR 0x0A]
                    @ ''link: https://example.org/b.pdf'' @ [CHR 0x0A] @ ''inserts:''
                    @ [CHR 0x0A] @ ''- title: I'' @ [CHR 0x0A] @ ''  link: nope''
        then Inr (Obj [(''date'', Str ''May 3''), (''title'', Str ''B''),
                       (''link'', Str ''https://example.org/b.pdf''),
                       (''inserts'', Arr [Obj [(''title'', Str ''I''), (''link'', Str ''nope'')]])])
      else Inr (Str s))"

definition exampleURL :: "jsval \<Rightarrow> bool" where
  "exampleURL v = (v = Str ''https://example.org/b.pdf'')"

definition exampleEvent :: "string \<Rightarrow> event" where
  "exampleEvent d =
     \<lparr> descriptive = d, event.title = Str ''A'', subtitle = Undefined, color = Undefined,
       location = Undefined, times = Arr [] \<rparr>"

definition exampleTable :: "string \<rightharpoonup> tweetObject" where
  "exampleTable =
     [''1'' \<mapsto> \<lparr> full_text = ''title: A'' @ [CHR 0x0A] @ ''desc: hello'', urls = [] \<rparr>,
      ''2'' \<mapsto> \<lparr> full_text = ''desc: world'', urls = [] \<rparr>,
      ''3'' \<mapsto> \<lparr> full_text = ''title: ['', urls = [] \<rparr>]"

definition emptyCollection :: "'e collection" where
  "emptyCollection = \<lparr> heap = [], dataset = [], errors = [], hash = createHash \<rparr>"

definition exampleSplitA :: entries where
  "exampleSplitA =
     \<lparr> timeline = [''1'', ''2''],
       tweets = [''1'' \<mapsto> \<lparr> full_text = ''ab'', urls = [] \<rparr>,
                 ''2'' \<mapsto> \<lparr> full_text = ''c'', urls = [] \<rparr>] \<rparr>"

definition exampleSplitB :: entries where
  "exampleSplitB =
     \<lparr> timeline = [''1'', ''2''],
       tweets = [''1'' \<mapsto> \<lparr> full_text = ''a'', urls = [] \<rparr>,
                 ''2'' \<mapsto> \<lparr> full_text = ''bc'', urls = [] \<rparr>] \<rparr>"

definition titleMissing :: "string \<Rightarrow> descriptor" where
  "titleMissing i =
     \<lparr> error = ''Invalid structure'', type = ''TypeError'', reason = Message ''Title missing'',
       mark = None, tweetId = Some i \<rparr>"

definition exampleTimeline :: entries where
  "exampleTimeline = \<lparr> timeline = [''1'', ''3'', ''2''], tweets = exampleTable \<rparr>"

definition exampleLinked :: entries where
  "exampleLinked =
     \<lparr> timeline = [''9''],
       tweets = [''9'' \<mapsto> \<lparr> full_text = ''title: t.co/a'',
                               urls = [(''t.co/a'', ''A'')] \<rparr>] \<rparr>"

definition noPrimary :: "string \<Rightarrow> descriptor" where
  "noPrimary i =
     \<lparr> error = ''Unexpected error'', type = ''Error'',
       reason = Message ''Continuation tweet with no primary'', mark = None, tweetId = Some i \<rparr>"

definition invalidYAML :: "string \<Rightarrow> descriptor" where
  "invalidYAML i =
     \<lparr> error = ''Invalid YAML'', type = ''YAMLException'',
       reason = Message ''unexpected end of the stream within a flow collection'',
       mark = Some \<lparr> position = 8, line = 1, column = 0 \<rparr>, tweetId = Some i \<rparr>"

definition invalidStructure :: "message \<Rightarrow> string \<Rightarrow> descriptor" where
  "invalidStructure msg i =
     \<lparr> error = ''Invalid structure'', type = ''TypeError'', reason = msg, mark = None,
       tweetId = Some i \<rparr>"

definition exampleBulletinText :: string where
  "exampleBulletinText =
     ''date: May 3'' @ [CHR 0x0A] @ ''title: B'' @ [CHR 0x0A] @ ''link: not-a-url''"

definition exampleTimesText :: string where
  "exampleTimesText = ''title: A'' @ [CHR 0x0A] @ ''times:'' @ [CHR 0x0A] @ ''- day: Mon''"

definition noTweets :: entries where
  "noTweets = \<lparr> timeline = [], tweets = Map.empty \<rparr>"

definition digestOfNothing :: string where
  "digestOfNothing = ''d41d8cd98f00b204e9800998ecf8427e''"

definition exampleEmptyPrimary :: entries where
  "exampleEmptyPrimary =
     \<lparr> timeline = [''1'', ''2''],
       tweets = [''1'' \<mapsto> \<lparr> full_text = ''title: A'', urls = [] \<rparr>,
                 ''2'' \<mapsto> \<lparr> full_text = ''desc: world'', urls = [] \<rparr>] \<rparr>"

section \<open>Basic facts\<close>

lemma trim_Nil [simp]: "trim [] = []"
  by (simp add: trim_def trimStart_def trimEnd_def stripLeading.simps stripOne_def whiteSpace_def)

lemma andThen_Inr [simp]: "andThen (Inr v) f = f v"
  by (simp add: andThen_def)

lemma andThen_Inl [simp]: "andThen (Inl e) f = Inl e"
  by (simp add: andThen_def)

lemma andThen_eq_Inr: "andThen m f = Inr r \<longleftrightarrow> (\<exists>v. m = Inr v \<and> f v = Inr r)"
  by (cases m) auto

lemma andThen_eq_Inl: "andThen m f = Inl e \<longleftrightarrow> m = Inl e \<or> (\<exists>v. m = Inr v \<and> f v = Inl e)"
  by (cases m) auto

lemma requireObjectCoercible_Inl:
  "requireObjectCoercible v = Inl e \<Longrightarrow> e = TypeError EngineMessage"
  by (cases v) auto

lemma callTrim_Inl: "callTrim v = Inl e \<Longrightarrow> e = TypeError EngineMessage"
  by (cases v) auto

lemma iterate_Inl: "iterate v = Inl e \<Longrightarrow> e = TypeError EngineMessage"
  by (cases v) auto

lemma checkTimes_Inl: "checkTimes es = Inl e \<Longrightarrow> \<exists>msg. e = TypeError msg"
  by (induction es) (auto split: sum.splits if_splits dest: requireObjectCoercible_Inl)

lemma checkInserts_Inl: "checkInserts validURL es = Inl e \<Longrightarrow> \<exists>msg. e = TypeError msg"
  by (induction es) (auto split: sum.splits if_splits dest: requireObjectCoercible_Inl)

subsection \<open>The \<open>try\<close> block of \<open>eventsTransform\<close>\<close>

lemma eventsTry_decode_error:
  "load tx = Inl (r, m) \<Longrightarrow> eventsTry load store tx lp = Inl (YAMLException r m)"
  by (simp add: eventsTry_def yamlLoad_def)

text \<open>What the block can throw, and when.\<close>

lemma eventsTry_Inl:
  assumes "eventsTry load store tx lp = Inl e"
  shows "(\<exists>r m. load tx = Inl (r, m) \<and> e = YAMLException r m)
       \<or> (\<exists>document msg. load tx = Inr document \<and> e = TypeError msg)
       \<or> (\<exists>document. load tx = Inr document \<and> isContinuation document \<and> lp = None
            \<and> e = Error (Message ''Continuation tweet with no primary''))"
proof (cases "load tx")
  case (Inl a)
  then show ?thesis using assms by (cases a) (simp add: eventsTry_def yamlLoad_def)
next
  case (Inr document)
  then show ?thesis using assms
    by (auto simp: eventsTry_def yamlLoad_def Let_def isContinuation_def andThen_eq_Inl
          split: if_splits option.splits sum.splits
          dest: requireObjectCoercible_Inl callTrim_Inl iterate_Inl checkTimes_Inl)
qed

text \<open>A continuation candidate reaches the continuation branch.\<close>

lemma eventsTry_continuation:
  assumes "load tx = Inr document" "isContinuation document"
  shows "eventsTry load store tx lp =
     (case lp of
        Some ref \<Rightarrow>
          (case callTrim (orDefault (getProp document ''desc'') (Str [])) of
             Inr d \<Rightarrow> Inr (store [ref := (store ! ref)
                 \<lparr> descriptive := descriptive (store ! ref) @ [CHR 0x0A, CHR 0x0A] @ d \<rparr>],
               None, Some ref, None))
      | None \<Rightarrow> Inl (Error (Message ''Continuation tweet with no primary'')))"
  using assms
  by (cases document)
     (auto simp: eventsTry_def yamlLoad_def Let_def isContinuation_def
        split: sum.splits option.splits)

text \<open>What the block returns: a new object, or a merge into the last primary.\<close>

lemma eventsTry_Inr:
  assumes "eventsTry load store tx lp = Inr (h, el, l, d)"
  shows "d = None \<and>
      ((\<exists>ev. h = store @ [ev] \<and> el = Some (length store) \<and> l = Some (length store))
       \<or> (\<exists>ref. lp = Some ref \<and> el = None \<and> l = Some ref \<and> length h = length store))"
  using assms
  by (auto simp: eventsTry_def Let_def andThen_eq_Inr split: if_splits option.splits)

lemma eventsTransform_Inl:
  "eventsTry load store tx lp = Inl e \<Longrightarrow>
   eventsTransform load store i tx lp = Inr (store, None, None, Some (catchBlock e i))"
  by (simp add: eventsTransform_def)

lemma eventsTransform_Inr:
  "eventsTry load store tx lp = Inr r \<Longrightarrow> eventsTransform load store i tx lp = Inr r"
  by (simp add: eventsTransform_def)

text \<open>The two revisions of \<open>eventsTransform\<close> compute the same function.\<close>

lemma eventsTransform_v2_eq: "eventsTransform_v2 = eventsTransform"
proof -
  have "eventsTry_v2 load store tx lp = eventsTry load store tx lp" for load store tx lp
    by (simp add: eventsTry_v2_def eventsTry_def handleContinuation_def cong: if_cong)
  moreover have "prepare e (Some i) store = (store, None, None, Some (catchBlock e i))"
    for e i and store :: "event list"
    by (cases e) (simp_all add: prepare_def catchBlock_def)
  ultimately show ?thesis
    by (intro ext) (simp add: eventsTransform_v2_def eventsTransform_def split: sum.splits)
qed

subsection \<open>The \<open>try\<close> block of \<open>bulletinsTransform\<close>\<close>

lemma bulletinsTry_decode_error:
  "load tx = Inl (r, m) \<Longrightarrow> bulletinsTry load validURL store tx = Inl (YAMLException r m)"
  by (simp add: bulletinsTry_def yamlLoad_def)

lemma bulletinsTry_Inl:
  assumes "bulletinsTry load validURL store tx = Inl e"
  shows "(\<exists>r m. load tx = Inl (r, m) \<and> e = YAMLException r m)
       \<or> (\<exists>document msg. load tx = Inr document \<and> e = TypeError msg)"
proof (cases "load tx")
  case (Inl a)
  then show ?thesis using assms by (cases a) (simp add: bulletinsTry_def yamlLoad_def)
next
  case (Inr document)
  then show ?thesis using assms
    by (auto simp: bulletinsTry_def yamlLoad_def Let_def andThen_eq_Inl
          split: if_splits
          dest: requireObjectCoercible_Inl iterate_Inl checkInserts_Inl)
qed

lemma bulletinsTry_Inr:
  assumes "bulletinsTry load validURL store tx = Inr (h, el, l, d)"
  shows "d = None \<and> l = None \<and> el = Some (length store) \<and> (\<exists>b. h = store @ [b])"
  using assms
  by (auto simp: bulletinsTry_def Let_def andThen_eq_Inr split: if_splits)

lemma bulletinsTransform_Inl:
  "bulletinsTry load validURL store tx = Inl e \<Longrightarrow>
   bulletinsTransform load validURL store i tx lp = Inr (store, None, None, Some (catchBlock e i))"
  by (simp add: bulletinsTransform_def)

lemma bulletinsTransform_Inr:
  "bulletinsTry load validURL store tx = Inr r \<Longrightarrow>
   bulletinsTransform load validURL store i tx lp = Inr r"
  by (simp add: bulletinsTransform_def)

subsection \<open>Shapes of the results and the loop body\<close>

lemma trim_world: "trim ''world'' = ''world''"
  by (simp add: trim_def trimStart_def trimEnd_def stripLeading.simps stripOne_def whiteSpace_def)

lemma trim_hello: "trim ''hello'' = ''hello''"
  by (simp add: trim_def trimStart_def trimEnd_def stripLeading.simps stripOne_def whiteSpace_def)

lemma eventsTransform_shape:
  "\<exists>h el l d. eventsTransform load store i tx lp = Inr (h, el, l, d) \<and>
      ((\<exists>ev. h = store @ [ev] \<and> el = Some (length store) \<and> l = el \<and> d = None)
     \<or> (\<exists>r. lp = Some r \<and> length h = length store \<and> el = None \<and> l = Some r \<and> d = None)
     \<or> (h = store \<and> el = None \<and> l = None \<and> d \<noteq> None))"
proof (cases "eventsTry load store tx lp")
  case (Inl e)
  then show ?thesis by (simp add: eventsTransform_Inl)
next
  case (Inr r)
  obtain h el l d where r: "r = (h, el, l, d)" by (cases r) auto
  from eventsTry_Inr [OF Inr [unfolded r]] show ?thesis
    unfolding eventsTransform_Inr [OF Inr] r by auto
qed

lemma bulletinsTransform_shape:
  "\<exists>h el d. bulletinsTransform load validURL store i tx lp = Inr (h, el, None, d) \<and>
      ((\<exists>b. h = store @ [b] \<and> el = Some (length store) \<and> d = None)
     \<or> (h = store \<and> el = None \<and> d \<noteq> None))"
proof (cases "bulletinsTry load validURL store tx")
  case (Inl e)
  then show ?thesis by (simp add: bulletinsTransform_Inl)
next
  case (Inr r)
  obtain h el l d where r: "r = (h, el, l, d)" by (cases r) auto
  from bulletinsTry_Inr [OF Inr [unfolded r]] show ?thesis
    unfolding bulletinsTransform_Inr [OF Inr] r by auto
qed

lemma processTweet_Inr:
  "processTweet tr table (c, lp) i = Inr (c', lp') \<longleftrightarrow>
     (\<exists>tw h el d. table i = Some tw
        \<and> tr (heap c) i (tweetTextExpandedLinks (full_text tw) (urls tw)) lp = Inr (h, el, lp', d)
        \<and> c' = \<lparr> heap = h,
                  dataset = (case el of Some r \<Rightarrow> dataset c @ [r] | None \<Rightarrow> dataset c),
                  errors = (case d of Some x \<Rightarrow> errors c @ [x] | None \<Rightarrow> errors c),
                  hash = update (hash c) (full_text tw) \<rparr>)"
  by (cases "table i") (auto simp: processTweet_def andThen_eq_Inr)

lemma processTweet_events_appends:
  assumes "processTweet (eventsTransform load) table (c, lp) i = Inr (c', lp')"
  shows "(dataset c' = dataset c \<and> errors c' = errors c)
       \<or> (\<exists>r. dataset c' = dataset c @ [r] \<and> errors c' = errors c)
       \<or> (\<exists>d. dataset c' = dataset c \<and> errors c' = errors c @ [d])"
proof -
  from assms obtain tw h el d where
    "table i = Some tw" and
    t: "eventsTransform load (heap c) i (tweetTextExpandedLinks (full_text tw) (urls tw)) lp
          = Inr (h, el, lp', d)"
    and c': "c' = \<lparr> heap = h,
                  dataset = (case el of Some r \<Rightarrow> dataset c @ [r] | None \<Rightarrow> dataset c),
                  errors = (case d of Some x \<Rightarrow> errors c @ [x] | None \<Rightarrow> errors c),
                  hash = update (hash c) (full_text tw) \<rparr>"
    unfolding processTweet_Inr by blast
  from eventsTransform_shape [of load "heap c" i
      "tweetTextExpandedLinks (full_text tw) (urls tw)" lp] t
  show ?thesis unfolding c' by auto
qed

lemma processTweet_bulletins_appends:
  assumes "processTweet (bulletinsTransform load validURL) table (c, lp) i = Inr (c', lp')"
  shows "lp' = None \<and>
       ((\<exists>r. dataset c' = dataset c @ [r] \<and> errors c' = errors c)
       \<or> (\<exists>d. dataset c' = dataset c \<and> errors c' = errors c @ [d]))"
proof -
  from assms obtain tw h el d where
    "table i = Some tw" and
    t: "bulletinsTransform load validURL (heap c) i
          (tweetTextExpandedLinks (full_text tw) (urls tw)) lp = Inr (h, el, lp', d)"
    and c': "c' = \<lparr> heap = h,
                  dataset = (case el of Some r \<Rightarrow> dataset c @ [r] | None \<Rightarrow> dataset c),
                  errors = (case d of Some x \<Rightarrow> errors c @ [x] | None \<Rightarrow> errors c),
                  hash = update (hash c) (full_text tw) \<rparr>"
    unfolding processTweet_Inr by blast
  from bulletinsTransform_shape [of load validURL "heap c" i
      "tweetTextExpandedLinks (full_text tw) (urls tw)" lp] t
  show ?thesis unfolding c' by auto
qed

subsection \<open>The loop over the timeline\<close>

lemma eventsTransform_total: "\<exists>r. eventsTransform load store i tx lp = Inr r"
  by (simp add: eventsTransform_def split: sum.splits)

lemma bulletinsTransform_total: "\<exists>r. bulletinsTransform load validURL store i tx lp = Inr r"
  by (simp add: bulletinsTransform_def split: sum.splits)

lemma processTimeline_append:
  "processTimeline tr table st (xs @ ys) =
     andThen (processTimeline tr table st xs) (\<lambda>st'. processTimeline tr table st' ys)"
  by (induction xs arbitrary: st) (auto split: sum.splits)

lemma processTweet_hash:
  assumes "processTweet tr table (c, lp) i = Inr (c', lp')"
  shows "\<exists>tw. table i = Some tw \<and> hash c' = hash c @ [full_text tw]"
  using assms unfolding processTweet_Inr by (auto simp: update_def)

lemma processTweet_total:
  assumes "table i = Some tw" and "\<forall>h j tx l. \<exists>r. tr h j tx l = Inr r"
  shows "\<exists>c' lp'. processTweet tr table (c, lp) i = Inr (c', lp')"
proof -
  obtain r where "tr (heap c) i (tweetTextExpandedLinks (full_text tw) (urls tw)) lp = Inr r"
    using assms(2) by blast
  then show ?thesis using assms(1)
    by (cases r) (auto simp: processTweet_def)
qed

lemma processTimeline_hash:
  assumes "processTimeline tr table (c, lp) ids = Inr (c', lp')"
  shows "\<exists>tws. map table ids = map Some tws \<and> hash c' = hash c @ map full_text tws"
  using assms
proof (induction ids arbitrary: c lp)
  case Nil
  then show ?case by simp
next
  case (Cons i ids)
  from Cons.prems obtain c1 lp1 where
    step: "processTweet tr table (c, lp) i = Inr (c1, lp1)"
    and rest: "processTimeline tr table (c1, lp1) ids = Inr (c', lp')"
    by (auto split: sum.splits)
  from processTweet_hash [OF step] obtain tw where
    tw: "table i = Some tw" "hash c1 = hash c @ [full_text tw]" by blast
  from Cons.IH [OF rest] obtain tws where
    "map table ids = map Some tws" "hash c' = hash c1 @ map full_text tws" by blast
  with tw have "map table (i # ids) = map Some (tw # tws)
      \<and> hash c' = hash c @ map full_text (tw # tws)" by simp
  then show ?case by blast
qed

lemma processTimeline_total:
  assumes "map table ids = map Some tws" and "\<forall>h j tx l. \<exists>r. tr h j tx l = Inr r"
  shows "\<exists>c' lp'. processTimeline tr table (c, lp) ids = Inr (c', lp')"
  using assms(1)
proof (induction ids arbitrary: c lp tws)
  case Nil
  then show ?case by simp
next
  case (Cons i ids)
  then obtain tw tws' where tws: "tws = tw # tws'" "table i = Some tw"
    "map table ids = map Some tws'" by (cases tws) auto
  from processTweet_total [where tr = tr and table = table, OF tws(2) assms(2)] obtain c1 lp1 where
    "processTweet tr table (c, lp) i = Inr (c1, lp1)" by blast
  moreover from Cons.IH [OF tws(3)] obtain c2 lp2 where
    "processTimeline tr table (c1, lp1) ids = Inr (c2, lp2)" by blast
  ultimately show ?case by simp
qed

lemma processCollection_Inr:
  "processCollection tr response = Inr c \<longleftrightarrow>
     (\<exists>lp. processTimeline tr (tweets response)
             (\<lparr> heap = [], dataset = [], errors = [], hash = createHash \<rparr>, None)
             (timeline response) = Inr (c, lp))"
  by (auto simp: processCollection_def andThen_eq_Inr)

lemma processCollection_hash:
  assumes "processCollection tr response = Inr c"
  shows "\<exists>tws. map (tweets response) (timeline response) = map Some tws
           \<and> hash c = map full_text tws"
proof -
  from assms obtain lp where "processTimeline tr (tweets response)
             (\<lparr> heap = [], dataset = [], errors = [], hash = createHash \<rparr>, None)
             (timeline response) = Inr (c, lp)"
    unfolding processCollection_Inr by blast
  from processTimeline_hash [OF this] show ?thesis by (simp add: createHash_def)
qed

lemma processCollection_total:
  assumes "map (tweets response) (timeline response) = map Some tws"
    and "\<forall>h j tx l. \<exists>r. tr h j tx l = Inr r"
  shows "\<exists>c. processCollection tr response = Inr c \<and> hash c = map full_text tws"
proof -
  from processTimeline_total [where tr = tr and table = "tweets response", OF assms] obtain c lp where
    "processTimeline tr (tweets response)
       (\<lparr> heap = [], dataset = [], errors = [], hash = createHash \<rparr>, None)
       (timeline response) = Inr (c, lp)" by blast
  then have c: "processCollection tr response = Inr c"
    unfolding processCollection_Inr by blast
  from processCollection_hash [OF c] assms(1) have "hash c = map full_text tws"
    by (auto simp: inj_map_eq_map [OF inj_Some])
  with c show ?thesis by blast
qed

lemmas run_defs = processCollection_def processTweet_def tweetTextExpandedLinks_def
  eventsTransform_def eventsTry_def yamlLoad_def exampleLoad_def catchBlock_def
  createHash_def update_def

lemma processTweet_events_error:
  assumes "table i = Some tw"
    and "eventsTry load (heap c) (tweetTextExpandedLinks (full_text tw) (urls tw)) lp = Inl e"
  shows "processTweet (eventsTransform load) table (c, lp) i =
     Inr (\<lparr> heap = heap c, dataset = dataset c, errors = errors c @ [catchBlock e i],
            hash = hash c @ [full_text tw] \<rparr>, None)"
  using assms by (simp add: processTweet_def eventsTransform_Inl update_def)

lemma catchBlock_error:
  "error (catchBlock e i) =
     (case e of YAMLException r m \<Rightarrow> ''Invalid YAML''
              | TypeError msg \<Rightarrow> ''Invalid structure''
              | Error msg \<Rightarrow> ''Unexpected error'')"
  by (cases e) (simp_all add: catchBlock_def)

lemma processTimeline_events_total:
  assumes "map table ids = map Some tws"
  shows "\<exists>st. processTimeline (eventsTransform load) table (c, lp) ids = Inr st"
proof -
  have "\<forall>h j tx l. \<exists>r. eventsTransform load h j tx l = Inr r"
    by (intro allI eventsTransform_total)
  from processTimeline_total [where tr = "eventsTransform load" and table = table,
      OF assms this, of c lp]
  show ?thesis by blast
qed

lemma processTimeline_bulletins_total:
  assumes "map table ids = map Some tws"
  shows "\<exists>st. processTimeline (bulletinsTransform load validURL) table (c, lp) ids = Inr st"
proof -
  have "\<forall>h j tx l. \<exists>r. bulletinsTransform load validURL h j tx l = Inr r"
    by (intro allI bulletinsTransform_total)
  from processTimeline_total [where tr = "bulletinsTransform load validURL" and table = table,
      OF assms this, of c lp]
  show ?thesis by blast
qed

lemma indexOf_Some:
  "indexOf s pat = Some n \<Longrightarrow>
     n + length pat \<le> length s \<and> take (length pat) (drop n s) = pat
     \<and> (\<forall>k<n. \<not> prefix pat (drop k s))"
proof (induction s arbitrary: n)
  case Nil
  then show ?case by (simp split: if_splits)
next
  case (Cons c cs)
  show ?case
  proof (cases "prefix pat (c # cs)")
    case True
    with Cons.prems have "n = 0" by simp
    moreover from True have "length pat \<le> length (c # cs)" by (rule prefix_length_le)
    moreover from True have "take (length pat) (c # cs) = pat"
      by (metis append_eq_conv_conj prefix_def)
    ultimately show ?thesis by simp
  next
    case False
    with Cons.prems obtain n' where n': "indexOf cs pat = Some n'" "n = Suc n'" by auto
    from Cons.IH [OF n'(1)] have ih: "n' + length pat \<le> length cs"
      "take (length pat) (drop n' cs) = pat" "\<forall>k<n'. \<not> prefix pat (drop k cs)" by auto
    have "\<not> prefix pat (drop k (c # cs))" if "k < n" for k
      using that False ih(3) n'(2) by (cases k) auto
    with ih n'(2) show ?thesis by simp
  qed
qed

lemma indexOf_None:
  "indexOf s pat = None \<Longrightarrow> \<forall>k\<le>length s. \<not> prefix pat (drop k s)"
proof (induction s)
  case Nil
  then show ?case by (simp split: if_splits)
next
  case (Cons c cs)
  then have "\<not> prefix pat (c # cs)" "indexOf cs pat = None" by (auto split: if_splits)
  with Cons.IH have ih: "\<forall>k\<le>length cs. \<not> prefix pat (drop k cs)" by simp
  have "\<not> prefix pat (drop k (c # cs))" if "k \<le> length (c # cs)" for k
    using that \<open>\<not> prefix pat (c # cs)\<close> ih by (cases k) auto
  then show ?case by blast
qed

lemma getSubstitution_plain:
  "CHR ''$'' \<notin> set r \<Longrightarrow> getSubstitution matched preceding following r = r"
  by (induction matched preceding following r rule: getSubstitution.induct) auto

lemma replace_first:
  "indexOf s pat = Some n \<Longrightarrow> CHR ''$'' \<notin> set r \<Longrightarrow>
     replace s pat r = take n s @ r @ drop (n + length pat) s"
  by (simp add: replace_def getSubstitution_plain)

lemma replace_absent: "indexOf s pat = None \<Longrightarrow> replace s pat r = s"
  by (simp add: replace_def)

lemma checkTimes_bad_entry:
  assumes "entry \<in> set entries"
    and "\<not> truthy (getProp entry ''day'') \<or> \<not> truthy (getProp entry ''time'')"
  shows "\<exists>msg. checkTimes entries = Inl (TypeError msg)"
  using assms(1)
proof (induction entries)
  case Nil
  then show ?case by simp
next
  case (Cons x xs)
  show ?case
  proof (cases "requireObjectCoercible x")
    case (Inl e)
    then show ?thesis by (auto dest: requireObjectCoercible_Inl)
  next
    case (Inr v)
    show ?thesis
    proof (cases "x = entry")
      case True
      with Inr assms(2) show ?thesis by auto
    next
      case False
      with Cons have "\<exists>msg. checkTimes xs = Inl (TypeError msg)" by simp
      with Inr show ?thesis by auto
    qed
  qed
qed

lemma checkInserts_bad_entry:
  assumes "entry \<in> set entries"
    and "\<not> truthy (getProp entry ''title'') \<or> \<not> validURL (getProp entry ''link'')"
  shows "\<exists>msg. checkInserts validURL entries = Inl (TypeError msg)"
  using assms(1)
proof (induction entries)
  case Nil
  then show ?case by simp
next
  case (Cons x xs)
  show ?case
  proof (cases "requireObjectCoercible x")
    case (Inl e)
    then show ?thesis by (auto dest: requireObjectCoercible_Inl)
  next
    case (Inr v)
    show ?thesis
    proof (cases "x = entry")
      case True
      with Inr assms(2) show ?thesis by auto
    next
      case False
      with Cons have "\<exists>msg. checkInserts validURL xs = Inl (TypeError msg)" by simp
      with Inr show ?thesis by auto
    qed
  qed
qed

lemma eventsTry_title_missing:
  assumes "load tx = Inr document" "\<not> truthy (getProp document ''title'')"
    "\<not> isContinuation document"
  shows "\<exists>msg. eventsTry load store tx lp = Inl (TypeError msg)"
proof (cases "requireObjectCoercible document")
  case (Inl e)
  with assms(1) show ?thesis
    by (auto simp: eventsTry_def yamlLoad_def dest: requireObjectCoercible_Inl)
next
  case (Inr v)
  show ?thesis
  proof (cases "callTrim (orDefault (getProp document ''desc'') (Str []))")
    case (Inl e)
    with Inr assms(1) show ?thesis
      by (auto simp: eventsTry_def yamlLoad_def Let_def dest: callTrim_Inl)
  next
    case (Inr d)
    with assms(2,3) have "d = []" by (simp add: isContinuation_def)
    with Inr \<open>requireObjectCoercible document = Inr v\<close> assms(1,2) show ?thesis
      by (simp add: eventsTry_def yamlLoad_def Let_def)
  qed
qed

lemma eventsTry_bad_times:
  assumes "load tx = Inr document" "\<not> isContinuation document"
    "iterate (orDefault (getProp document ''times'') (Arr [])) = Inr entries"
    "entry \<in> set entries"
    "\<not> truthy (getProp entry ''day'') \<or> \<not> truthy (getProp entry ''time'')"
  shows "\<exists>msg. eventsTry load store tx lp = Inl (TypeError msg)"
proof (cases "truthy (getProp document ''title'')")
  case False
  from eventsTry_title_missing [where load = load and tx = tx, OF assms(1) False assms(2)]
  show ?thesis .
next
  case True
  from checkTimes_bad_entry [OF assms(4,5)] obtain msg where
    ct: "checkTimes entries = Inl (TypeError msg)" by blast
  show ?thesis
  proof (cases "requireObjectCoercible document")
    case (Inl e)
    with assms(1) show ?thesis
      by (auto simp: eventsTry_def yamlLoad_def dest: requireObjectCoercible_Inl)
  next
    case (Inr v)
    show ?thesis
    proof (cases "callTrim (orDefault (getProp document ''desc'') (Str []))")
      case (Inl e)
      with Inr assms(1) show ?thesis
        by (auto simp: eventsTry_def yamlLoad_def Let_def dest: callTrim_Inl)
    next
      case (Inr d)
      with \<open>requireObjectCoercible document = Inr v\<close> assms(1,3) True ct show ?thesis
        by (simp add: eventsTry_def yamlLoad_def Let_def)
    qed
  qed
qed

lemma bulletinsTry_missing_field:
  assumes "load tx = Inr document"
    "\<not> truthy (getProp document ''date'') \<or> \<not> truthy (getProp document ''title'')
       \<or> \<not> validURL (getProp document ''link'')"
  shows "\<exists>msg. bulletinsTry load validURL store tx = Inl (TypeError msg)"
proof (cases "requireObjectCoercible document")
  case (Inl e)
  with assms(1) show ?thesis
    by (auto simp: bulletinsTry_def yamlLoad_def dest: requireObjectCoercible_Inl)
next
  case (Inr v)
  with assms show ?thesis
    by (auto simp: bulletinsTry_def yamlLoad_def Let_def)
qed

lemma bulletinsTry_bad_insert:
  assumes "load tx = Inr document"
    "iterate (orDefault (getProp document ''inserts'') (Arr [])) = Inr entries"
    "entry \<in> set entries"
    "\<not> truthy (getProp entry ''title'') \<or> \<not> validURL (getProp entry ''link'')"
  shows "\<exists>msg. bulletinsTry load validURL store tx = Inl (TypeError msg)"
proof (cases "requireObjectCoercible document")
  case (Inl e)
  with assms(1) show ?thesis
    by (auto simp: bulletinsTry_def yamlLoad_def dest: requireObjectCoercible_Inl)
next
  case (Inr v)
  from checkInserts_bad_entry [where validURL = validURL, OF assms(3,4)] obtain msg where
    "checkInserts validURL entries = Inl (TypeError msg)" by blast
  with Inr assms(1,2) show ?thesis
    by (auto simp: bulletinsTry_def yamlLoad_def Let_def)
qed

lemma eventsTransform_descriptor:
  assumes "eventsTransform load store i tx lp = Inr (h, el, l, Some d)"
  shows "\<exists>e. eventsTry load store tx lp = Inl e \<and> d = catchBlock e i"
proof (cases "eventsTry load store tx lp")
  case (Inl e)
  with assms show ?thesis by (simp add: eventsTransform_def)
next
  case (Inr r)
  obtain h' el' l' d' where r: "r = (h', el', l', d')" by (cases r) auto
  from eventsTry_Inr [OF Inr [unfolded r]] assms Inr r show ?thesis
    by (simp add: eventsTransform_def)
qed

lemma bulletinsTransform_descriptor:
  assumes "bulletinsTransform load validURL store i tx lp = Inr (h, el, l, Some d)"
  shows "\<exists>e. bulletinsTry load validURL store tx = Inl e \<and> d = catchBlock e i"
proof (cases "bulletinsTry load validURL store tx")
  case (Inl e)
  with assms show ?thesis by (simp add: bulletinsTransform_def)
next
  case (Inr r)
  obtain h' el' l' d' where r: "r = (h', el', l', d')" by (cases r) auto
  from bulletinsTry_Inr [OF Inr [unfolded r]] assms Inr r show ?thesis
    by (simp add: bulletinsTransform_def)
qed

lemma events_invalid_yaml_iff:
  assumes "eventsTransform load store i tx lp = Inr (h, el, l, Some d)"
  shows "error d = ''Invalid YAML'' \<longleftrightarrow> (\<exists>r m. load tx = Inl (r, m))"
proof -
  from eventsTransform_descriptor [OF assms] obtain e where
    e: "eventsTry load store tx lp = Inl e" "d = catchBlock e i" by blast
  from eventsTry_Inl [OF e(1)] show ?thesis
    unfolding e(2) catchBlock_error by auto
qed

lemma bulletins_invalid_yaml_iff:
  assumes "bulletinsTransform load validURL store i tx lp = Inr (h, el, l, Some d)"
  shows "error d = ''Invalid YAML'' \<longleftrightarrow> (\<exists>r m. load tx = Inl (r, m))"
proof -
  from bulletinsTransform_descriptor [OF assms] obtain e where
    e: "bulletinsTry load validURL store tx = Inl e" "d = catchBlock e i" by blast
  from bulletinsTry_Inl [OF e(1)] show ?thesis
    unfolding e(2) catchBlock_error by auto
qed

lemma digest_createHash: "digest createHash = digestOfNothing"
  unfolding createHash_def digestOfNothing_def by code_simp

lemma processCollection_noTweets: "processCollection tr noTweets = Inr emptyCollection"
  by (simp add: processCollection_def noTweets_def emptyCollection_def)

section \<open>The claims\<close>

text \<open>
  Claim C4: a post that is a continuation candidate (no title, non-empty descriptive text),
  transformed while the last primary is \<open>null\<close>, gives an error descriptor (the
  unexpected error \<open>Continuation tweet with no primary\<close>) and no record; the store is
  unchanged. The revision with \<open>handleContinuation\<close> does the same.
\<close>

theorem continuation_without_primary:
  assumes "load tx = Inr document" and "isContinuation document"
  shows "eventsTransform load store i tx None =
           Inr (store, None, None,
                Some \<lparr> error = ''Unexpected error'', type = ''Error'',
                       reason = Message ''Continuation tweet with no primary'',
                       mark = None, tweetId = Some i \<rparr>)
       \<and> eventsTransform_v2 load store i tx None = eventsTransform load store i tx None
       \<and> handleContinuation cstore None d = Inl (Error (Message ''Continuation tweet with no primary''))"
proof -
  have "eventsTry load store tx None = Inl (Error (Message ''Continuation tweet with no primary''))"
    using eventsTry_continuation [where load = load and tx = tx and lp = None, OF assms, of store] by simp
  then show ?thesis
    by (simp add: eventsTransform_Inl catchBlock_def eventsTransform_v2_eq handleContinuation_def)
qed

theorem continuation_without_primary_witness:
  "exampleLoad ''desc: world'' = Inr (Obj [(''desc'', Str ''world'')])
   \<and> isContinuation (Obj [(''desc'', Str ''world'')])
   \<and> eventsTransform exampleLoad [exampleEvent ''hello''] ''7'' ''desc: world'' None =
       Inr ([exampleEvent ''hello''], None, None,
            Some \<lparr> error = ''Unexpected error'', type = ''Error'',
                   reason = Message ''Continuation tweet with no primary'',
                   mark = None, tweetId = Some ''7'' \<rparr>)"
proof -
  have h1: "exampleLoad ''desc: world'' = Inr (Obj [(''desc'', Str ''world'')])"
    by (simp add: exampleLoad_def)
  have h2: "isContinuation (Obj [(''desc'', Str ''world'')])"
    by (simp add: isContinuation_def trim_world)
  from continuation_without_primary [where load = exampleLoad and tx = "''desc: world''"
      and store = "[exampleEvent ''hello'']" and i = "''7''" and cstore = "[exampleEvent ''hello'']"
      and d = "''world''", OF h1 h2] h1 h2
  show ?thesis by simp
qed

text \<open>
  Claim C10: a transform never returns both a record and an error descriptor. Each call
  returns a new record with no error, or a merge into the last primary with neither a
  record nor an error, or an error descriptor with no record (and no last primary); hence
  one post appends at most one element to the dataset and at most one to the errors,
  never both.
\<close>

theorem transform_result_shapes:
  fixes store :: "event list" and bstore :: "bulletin list"
    and c c' :: "event collection" and b b' :: "bulletin collection"
  shows "(\<exists>h el l d. eventsTransform load store i tx lp = Inr (h, el, l, d) \<and>
            ((\<exists>ev. h = store @ [ev] \<and> el = Some (length store) \<and> l = el \<and> d = None)
           \<or> (\<exists>r. lp = Some r \<and> length h = length store \<and> el = None \<and> l = Some r \<and> d = None)
           \<or> (h = store \<and> el = None \<and> l = None \<and> d \<noteq> None)))
       \<and> (\<exists>h el d. bulletinsTransform load validURL bstore i tx lp = Inr (h, el, None, d) \<and>
            ((\<exists>x. h = bstore @ [x] \<and> el = Some (length bstore) \<and> d = None)
           \<or> (h = bstore \<and> el = None \<and> d \<noteq> None)))
       \<and> (processTweet (eventsTransform load) table (c, lp) i = Inr (c', lp') \<longrightarrow>
            (dataset c' = dataset c \<and> errors c' = errors c)
          \<or> (\<exists>r. dataset c' = dataset c @ [r] \<and> errors c' = errors c)
          \<or> (\<exists>d. dataset c' = dataset c \<and> errors c' = errors c @ [d]))
       \<and> (processTweet (bulletinsTransform load validURL) table (b, lp) i = Inr (b', lp') \<longrightarrow>
            (\<exists>r. dataset b' = dataset b @ [r] \<and> errors b' = errors b)
          \<or> (\<exists>d. dataset b' = dataset b \<and> errors b' = errors b @ [d]))"
  using eventsTransform_shape [of load store i tx lp]
    bulletinsTransform_shape [of load validURL bstore i tx lp]
    processTweet_events_appends [of load table c lp i c' lp']
    processTweet_bulletins_appends [of load validURL table b lp i b' lp']
  by blast

theorem transform_result_shapes_witness:
  "processTweet (eventsTransform exampleLoad) exampleTable (emptyCollection, None) ''1''
     = Inr (\<lparr> heap = [exampleEvent ''hello''], dataset = [0], errors = [],
              hash = [''title: A'' @ [CHR 0x0A] @ ''desc: hello''] \<rparr>, Some 0)
   \<and> ((dataset \<lparr> heap = [exampleEvent ''hello''], dataset = [0], errors = ([] :: descriptor list),
              hash = [''title: A'' @ [CHR 0x0A] @ ''desc: hello''] \<rparr> = dataset (emptyCollection :: event collection) @ [0]))"
proof -
  have h: "processTweet (eventsTransform exampleLoad) exampleTable (emptyCollection, None) ''1''
     = Inr (\<lparr> heap = [exampleEvent ''hello''], dataset = [0], errors = [],
              hash = [''title: A'' @ [CHR 0x0A] @ ''desc: hello''] \<rparr>, Some 0)"
    by (simp add: processTweet_def exampleTable_def emptyCollection_def tweetTextExpandedLinks_def
          eventsTransform_def eventsTry_def yamlLoad_def exampleLoad_def trim_hello
          exampleEvent_def createHash_def update_def)
  from transform_result_shapes [where load = exampleLoad and table = exampleTable
      and c = emptyCollection and lp = None and i = "''1''" and lp' = "Some 0"
      and c' = "\<lparr> heap = [exampleEvent ''hello''], dataset = [0], errors = [],
              hash = [''title: A'' @ [CHR 0x0A] @ ''desc: hello''] \<rparr>"] h
  show ?thesis by (simp add: emptyCollection_def)
qed


text \<open>
  Claim C1, as stated, fails: the hash is fed the texts one after the other with nothing
  between them, so two timelines whose texts differ only in where one post ends and the
  next begins (here \<open>ab\<close>, \<open>c\<close> against \<open>a\<close>, \<open>bc\<close>) have the same digest.
\<close>

theorem digest_ignores_post_boundaries:
  "processCollection (eventsTransform exampleLoad) exampleSplitA =
      Inr \<lparr> heap = [], dataset = [], errors = [titleMissing ''1'', titleMissing ''2''],
            hash = [''ab'', ''c''] \<rparr>
   \<and> processCollection (eventsTransform exampleLoad) exampleSplitB =
      Inr \<lparr> heap = [], dataset = [], errors = [titleMissing ''1'', titleMissing ''2''],
            hash = [''a'', ''bc''] \<rparr>
   \<and> [''ab'', ''c''] \<noteq> [''a'', ''bc'']
   \<and> digest [''ab'', ''c''] = digest [''a'', ''bc'']"
  by (simp add: run_defs exampleSplitA_def exampleSplitB_def titleMissing_def digest_def)

text \<open>
  Claim C1, amended: the digest of a collection is the MD5 of the concatenation of the raw
  texts of its posts in timeline order, whatever the transform makes of the posts
  (parsed, failed or merged). Hence identical sequences of texts give identical digests,
  and so do sequences with the same concatenation; a difference between two runs can
  change the digest only if it changes the concatenation.
\<close>

theorem digest_of_concatenation:
  assumes "processCollection tr1 response1 = Inr c1"
    and "processCollection tr2 response2 = Inr c2"
    and "map (tweets response1) (timeline response1) = map Some tws1"
    and "map (tweets response2) (timeline response2) = map Some tws2"
  shows "digest (hash c1) = hex (md5 (map (\<lambda>ch. of_nat (of_char ch)) (concat (map full_text tws1))))
       \<and> (concat (map full_text tws1) = concat (map full_text tws2)
            \<longrightarrow> digest (hash c1) = digest (hash c2))
       \<and> (map full_text tws1 = map full_text tws2 \<longrightarrow> digest (hash c1) = digest (hash c2))"
proof -
  from processCollection_hash [OF assms(1)] assms(3) have h1: "hash c1 = map full_text tws1"
    by (auto simp: inj_map_eq_map [OF inj_Some])
  from processCollection_hash [OF assms(2)] assms(4) have h2: "hash c2 = map full_text tws2"
    by (auto simp: inj_map_eq_map [OF inj_Some])
  show ?thesis by (auto simp: h1 h2 digest_def)
qed

theorem digest_of_concatenation_witness:
  "digest (hash \<lparr> heap = ([] :: event list), dataset = [],
                     errors = [titleMissing ''1'', titleMissing ''2''], hash = [''ab'', ''c''] \<rparr>)
     = digest (hash \<lparr> heap = ([] :: event list), dataset = [],
                     errors = [titleMissing ''1'', titleMissing ''2''], hash = [''a'', ''bc''] \<rparr>)"
proof -
  have a: "processCollection (eventsTransform exampleLoad) exampleSplitA =
      Inr \<lparr> heap = [], dataset = [], errors = [titleMissing ''1'', titleMissing ''2''],
            hash = [''ab'', ''c''] \<rparr>"
    by (simp add: run_defs exampleSplitA_def titleMissing_def)
  have b: "processCollection (eventsTransform exampleLoad) exampleSplitB =
      Inr \<lparr> heap = [], dataset = [], errors = [titleMissing ''1'', titleMissing ''2''],
            hash = [''a'', ''bc''] \<rparr>"
    by (simp add: run_defs exampleSplitB_def titleMissing_def)
  have ta: "map (tweets exampleSplitA) (timeline exampleSplitA)
      = map Some [\<lparr> full_text = ''ab'', urls = [] \<rparr>, \<lparr> full_text = ''c'', urls = [] \<rparr>]"
    by (simp add: exampleSplitA_def)
  have tb: "map (tweets exampleSplitB) (timeline exampleSplitB)
      = map Some [\<lparr> full_text = ''a'', urls = [] \<rparr>, \<lparr> full_text = ''bc'', urls = [] \<rparr>]"
    by (simp add: exampleSplitB_def)
  from digest_of_concatenation [OF a b ta tb, THEN conjunct2, THEN conjunct1]
  show ?thesis by simp
qed

text \<open>
  Claim C5: when every id of the timeline has its tweet in the lookup table, the collection
  is processed to its end and the hash has been updated exactly once for each post, in
  timeline order, with the raw text \<open>full_text\<close> (not the text with expanded links),
  whether the post gave a record, an error or a merge; and whenever the processing of a
  collection returns, with any transform, the updates of the hash are exactly these.
\<close>

theorem hash_updated_once_per_post:
  "(map (tweets response) (timeline response) = map Some tws \<longrightarrow>
      (\<exists>c. processCollection (eventsTransform load) response = Inr c
            \<and> hash c = map full_text tws)
    \<and> (\<exists>c. processCollection (bulletinsTransform load validURL) response = Inr c
            \<and> hash c = map full_text tws))
   \<and> (processCollection tr response = Inr c' \<longrightarrow>
      (\<exists>tws'. map (tweets response) (timeline response) = map Some tws'
             \<and> hash c' = map full_text tws'))"
proof (intro conjI impI)
  assume t: "map (tweets response) (timeline response) = map Some tws"
  show "\<exists>c. processCollection (eventsTransform load) response = Inr c
            \<and> hash c = map full_text tws"
    by (rule processCollection_total [OF t]) (intro allI eventsTransform_total)
  show "\<exists>c. processCollection (bulletinsTransform load validURL) response = Inr c
            \<and> hash c = map full_text tws"
    by (rule processCollection_total [OF t]) (intro allI bulletinsTransform_total)
next
  assume "processCollection tr response = Inr c'"
  then show "\<exists>tws'. map (tweets response) (timeline response) = map Some tws'
             \<and> hash c' = map full_text tws'"
    by (rule processCollection_hash)
qed

theorem hash_updated_once_per_post_witness:
  "processCollection (eventsTransform exampleLoad) exampleLinked =
     Inr \<lparr> heap = [exampleEvent []], dataset = [0], errors = [], hash = [''title: t.co/a''] \<rparr>
   \<and> (\<exists>c. processCollection (eventsTransform exampleLoad) exampleTimeline = Inr c
          \<and> hash c = [''title: A'' @ [CHR 0x0A] @ ''desc: hello'', ''title: ['', ''desc: world''])"
proof -
  have t: "map (tweets exampleTimeline) (timeline exampleTimeline) =
     map Some [\<lparr> full_text = ''title: A'' @ [CHR 0x0A] @ ''desc: hello'', urls = [] \<rparr>,
               \<lparr> full_text = ''title: ['', urls = [] \<rparr>,
               \<lparr> full_text = ''desc: world'', urls = [] \<rparr>]"
    by (simp add: exampleTimeline_def exampleTable_def)
  have l: "processCollection (eventsTransform exampleLoad) exampleLinked =
     Inr \<lparr> heap = [exampleEvent []], dataset = [0], errors = [], hash = [''title: t.co/a''] \<rparr>"
    by (simp add: run_defs exampleLinked_def exampleEvent_def replace_def)
  from hash_updated_once_per_post [where response = exampleTimeline and load = exampleLoad
      and validURL = exampleURL and tr = "eventsTransform exampleLoad"
      and c' = "\<lparr> heap = [], dataset = [], errors = [], hash = [] \<rparr>" and tws =
      "[\<lparr> full_text = ''title: A'' @ [CHR 0x0A] @ ''desc: hello'', urls = [] \<rparr>,
               \<lparr> full_text = ''title: ['', urls = [] \<rparr>,
               \<lparr> full_text = ''desc: world'', urls = [] \<rparr>]"] t l
  show ?thesis by simp
qed

text \<open>
  Claim C9: whenever a transform returns an error descriptor, the last primary it returns
  is \<open>null\<close> (and there is no record, the store is unchanged), so that the loop carries no
  last primary after a failed post. Consequently, when a post fails and the next post is a
  continuation candidate, the second post gives the error
  \<open>Continuation tweet with no primary\<close>, whatever the last primary was before the
  failed post.
\<close>

theorem error_resets_last_primary:
  fixes store :: "event list" and bstore :: "bulletin list" and c c' :: "event collection"
  shows "(eventsTransform load store i tx lp = Inr (h, el, l, Some d)
            \<longrightarrow> l = None \<and> el = None \<and> h = store)
       \<and> (bulletinsTransform load validURL bstore i tx lp = Inr (bh, bel, bl, Some d)
            \<longrightarrow> bl = None \<and> bel = None \<and> bh = bstore)
       \<and> (processTweet (eventsTransform load) table (c, lp) i = Inr (c', lp')
            \<and> errors c' \<noteq> errors c \<longrightarrow> lp' = None)
       \<and> (table i1 = Some t1 \<and> table i2 = Some t2
            \<and> eventsTry load (heap c) (tweetTextExpandedLinks (full_text t1) (urls t1)) lp = Inl e
            \<and> load (tweetTextExpandedLinks (full_text t2) (urls t2)) = Inr document
            \<and> isContinuation document
            \<longrightarrow> processTimeline (eventsTransform load) table (c, lp) [i1, i2] =
                  Inr (\<lparr> heap = heap c, dataset = dataset c,
                         errors = errors c @ [catchBlock e i1, noPrimary i2],
                         hash = hash c @ [full_text t1, full_text t2] \<rparr>, None))"
proof -
  have p1: "l = None \<and> el = None \<and> h = store"
    if "eventsTransform load store i tx lp = Inr (h, el, l, Some d)"
    using that eventsTransform_shape [of load store i tx lp] by auto
  have p2: "bl = None \<and> bel = None \<and> bh = bstore"
    if "bulletinsTransform load validURL bstore i tx lp = Inr (bh, bel, bl, Some d)"
    using that bulletinsTransform_shape [of load validURL bstore i tx lp] by auto
  have p3: "lp' = None"
    if a: "processTweet (eventsTransform load) table (c, lp) i = Inr (c', lp')
            \<and> errors c' \<noteq> errors c"
  proof -
    from a obtain tw h el d where
      "table i = Some tw" and
      t: "eventsTransform load (heap c) i (tweetTextExpandedLinks (full_text tw) (urls tw)) lp
            = Inr (h, el, lp', d)"
      and c': "c' = \<lparr> heap = h,
                    dataset = (case el of Some r \<Rightarrow> dataset c @ [r] | None \<Rightarrow> dataset c),
                    errors = (case d of Some x \<Rightarrow> errors c @ [x] | None \<Rightarrow> errors c),
                    hash = update (hash c) (full_text tw) \<rparr>"
      unfolding processTweet_Inr by blast
    from a c' obtain x where "d = Some x" by (cases d) auto
    with t eventsTransform_shape [of load "heap c" i
        "tweetTextExpandedLinks (full_text tw) (urls tw)" lp]
    show ?thesis by auto
  qed
  have p4: "processTimeline (eventsTransform load) table (c, lp) [i1, i2] =
                  Inr (\<lparr> heap = heap c, dataset = dataset c,
                         errors = errors c @ [catchBlock e i1, noPrimary i2],
                         hash = hash c @ [full_text t1, full_text t2] \<rparr>, None)"
    if a: "table i1 = Some t1 \<and> table i2 = Some t2
            \<and> eventsTry load (heap c) (tweetTextExpandedLinks (full_text t1) (urls t1)) lp = Inl e
            \<and> load (tweetTextExpandedLinks (full_text t2) (urls t2)) = Inr document
            \<and> isContinuation document"
  proof -
    let ?c1 = "\<lparr> heap = heap c, dataset = dataset c, errors = errors c @ [catchBlock e i1],
              hash = hash c @ [full_text t1] \<rparr>"
    from a have s1: "processTweet (eventsTransform load) table (c, lp) i1 = Inr (?c1, None)"
      by (simp add: processTweet_events_error)
    from a have "eventsTry load (heap ?c1) (tweetTextExpandedLinks (full_text t2) (urls t2)) None
        = Inl (Error (Message ''Continuation tweet with no primary''))"
      using eventsTry_continuation [where load = load and document = document and lp = None
          and tx = "tweetTextExpandedLinks (full_text t2) (urls t2)" and store = "heap c"]
      by simp
    with a have s2: "processTweet (eventsTransform load) table (?c1, None) i2 =
        Inr (\<lparr> heap = heap c, dataset = dataset c,
               errors = errors c @ [catchBlock e i1, noPrimary i2],
               hash = hash c @ [full_text t1, full_text t2] \<rparr>, None)"
      by (simp add: processTweet_events_error catchBlock_def noPrimary_def)
    show ?thesis by (simp add: s1 s2)
  qed
  from p1 p2 p3 p4 show ?thesis by blast
qed

theorem error_resets_last_primary_witness:
  "processTimeline (eventsTransform exampleLoad) exampleTable
     (\<lparr> heap = [exampleEvent ''hello''], dataset = [0], errors = [], hash = [''x''] \<rparr>, Some 0)
     [''3'', ''2''] =
   Inr (\<lparr> heap = [exampleEvent ''hello''], dataset = [0],
          errors = [invalidYAML ''3'', noPrimary ''2''],
          hash = [''x'', ''title: ['', ''desc: world''] \<rparr>, None)"
proof -
  have e: "eventsTry exampleLoad [exampleEvent ''hello''] ''title: ['' (Some 0)
      = Inl (YAMLException ''unexpected end of the stream within a flow collection''
               (Some \<lparr> position = 8, line = 1, column = 0 \<rparr>))"
    by (simp add: eventsTry_def yamlLoad_def exampleLoad_def)
  have k: "isContinuation (Obj [(''desc'', Str ''world'')])"
    by (simp add: isContinuation_def trim_world)
  from error_resets_last_primary [where load = exampleLoad and table = exampleTable
      and c = "\<lparr> heap = [exampleEvent ''hello''], dataset = [0], errors = [], hash = [''x''] \<rparr>"
      and lp = "Some 0" and ?i1.0 = "''3''" and ?i2.0 = "''2''"
      and ?t1.0 = "\<lparr> full_text = ''title: ['', urls = [] \<rparr>"
      and ?t2.0 = "\<lparr> full_text = ''desc: world'', urls = [] \<rparr>"
      and document = "Obj [(''desc'', Str ''world'')]"
      and e = "YAMLException ''unexpected end of the stream within a flow collection''
               (Some \<lparr> position = 8, line = 1, column = 0 \<rparr>)",
      THEN conjunct2, THEN conjunct2, THEN conjunct2] e k
  show ?thesis
    by (simp add: exampleTable_def tweetTextExpandedLinks_def exampleLoad_def catchBlock_def
          invalidYAML_def)
qed

text \<open>
  Claim C8: for every tweet id, text and last primary, the transforms return a result and
  never throw: whatever the \<open>try\<close> block throws is turned by the \<open>catch\<close> block into
  the result with an error descriptor, whose category is \<open>Unexpected error\<close> exactly when
  the error is neither a \<open>YAMLException\<close> (decode failure) nor a \<open>TypeError\<close>
  (structural failure). Hence the loop over a timeline whose tweets are all in the lookup
  table runs to its end, and after a post that failed the loop goes on with the rest of
  the timeline.
\<close>

theorem transforms_never_throw:
  fixes store :: "event list" and bstore :: "bulletin list"
    and c :: "event collection" and b :: "bulletin collection"
  shows "(\<exists>r. eventsTransform load store i tx lp = Inr r)
       \<and> (\<exists>r. bulletinsTransform load validURL bstore i tx lp = Inr r)
       \<and> (eventsTry load store tx lp = Inl e \<longrightarrow>
            eventsTransform load store i tx lp = Inr (store, None, None, Some (catchBlock e i)))
       \<and> (bulletinsTry load validURL bstore tx = Inl e \<longrightarrow>
            bulletinsTransform load validURL bstore i tx lp
              = Inr (bstore, None, None, Some (catchBlock e i)))
       \<and> (error (catchBlock e i) = ''Unexpected error''
            \<longleftrightarrow> (\<forall>r m. e \<noteq> YAMLException r m) \<and> (\<forall>msg. e \<noteq> TypeError msg))
       \<and> (map table ids = map Some tws \<longrightarrow>
            (\<exists>st. processTimeline (eventsTransform load) table (c, lp) ids = Inr st)
          \<and> (\<exists>st. processTimeline (bulletinsTransform load validURL) table (b, lp) ids = Inr st))
       \<and> (table i = Some tw
            \<and> eventsTransform load (heap c) i (tweetTextExpandedLinks (full_text tw) (urls tw)) lp
                = Inr (h, None, None, Some d)
            \<longrightarrow> processTimeline (eventsTransform load) table (c, lp) (i # rest) =
                processTimeline (eventsTransform load) table
                  (\<lparr> heap = h, dataset = dataset c, errors = errors c @ [d],
                     hash = hash c @ [full_text tw] \<rparr>, None) rest)"
proof -
  have p5: "error (catchBlock e i) = ''Unexpected error''
            \<longleftrightarrow> (\<forall>r m. e \<noteq> YAMLException r m) \<and> (\<forall>msg. e \<noteq> TypeError msg)"
    by (cases e) (simp_all add: catchBlock_def)
  have p7: "processTimeline (eventsTransform load) table (c, lp) (i # rest) =
                processTimeline (eventsTransform load) table
                  (\<lparr> heap = h, dataset = dataset c, errors = errors c @ [d],
                     hash = hash c @ [full_text tw] \<rparr>, None) rest"
    if "table i = Some tw
            \<and> eventsTransform load (heap c) i (tweetTextExpandedLinks (full_text tw) (urls tw)) lp
                = Inr (h, None, None, Some d)"
    using that by (simp add: processTweet_def update_def)
  show ?thesis
    using eventsTransform_total [of load store i tx lp]
      bulletinsTransform_total [of load validURL bstore i tx lp]
      eventsTransform_Inl [of load store tx lp e i]
      bulletinsTransform_Inl [of load validURL bstore tx e i lp]
      processTimeline_events_total [of table ids tws load c lp]
      processTimeline_bulletins_total [of table ids tws load validURL b lp]
      p5 p7
    by blast
qed

theorem transforms_never_throw_witness:
  "processTimeline (eventsTransform exampleLoad) exampleTable (emptyCollection, None)
     [''3'', ''1'', ''2''] =
   Inr (\<lparr> heap = [exampleEvent (''hello'' @ [CHR 0x0A, CHR 0x0A] @ ''world'')], dataset = [0],
          errors = [invalidYAML ''3''],
          hash = [''title: ['', ''title: A'' @ [CHR 0x0A] @ ''desc: hello'', ''desc: world''] \<rparr>,
        Some 0)"
proof -
  have t: "exampleTable ''3'' = Some \<lparr> full_text = ''title: ['', urls = [] \<rparr>
      \<and> eventsTransform exampleLoad (heap (emptyCollection :: event collection)) ''3''
          (tweetTextExpandedLinks (full_text \<lparr> full_text = ''title: ['', urls = [] \<rparr>)
             (urls \<lparr> full_text = ''title: ['', urls = [] \<rparr>)) None
          = Inr ([], None, None, Some (invalidYAML ''3''))"
    by (simp add: run_defs exampleTable_def emptyCollection_def invalidYAML_def)
  from transforms_never_throw [where load = exampleLoad and table = exampleTable
      and c = emptyCollection and lp = None and i = "''3''" and rest = "[''1'', ''2'']"
      and tw = "\<lparr> full_text = ''title: ['', urls = [] \<rparr>" and h = "[]"
      and d = "invalidYAML ''3''", THEN conjunct2, THEN conjunct2, THEN conjunct2,
      THEN conjunct2, THEN conjunct2, THEN conjunct2, THEN mp, OF t]
  show ?thesis
    by (simp add: run_defs exampleTable_def emptyCollection_def trim_hello trim_world
          exampleEvent_def)
qed

text \<open>
  Claim C2, as stated, fails: \<open>replace\<close> with a string pattern replaces the first
  occurrence only, so a token that occurs twice and has one link entry keeps its second
  occurrence in the text handed to the parser.
\<close>

theorem only_first_occurrence_expanded:
  "tweetTextExpandedLinks ''see t.co/a and t.co/a'' [(''t.co/a'', ''https://example.org/'')]
     = ''see https://example.org/ and t.co/a''
   \<and> indexOf ''see https://example.org/ and t.co/a'' ''t.co/a'' = Some 29"
  by (simp add: tweetTextExpandedLinks_def replace_def)

text \<open>
  Claim C2, amended: before the text is handed to the transform, the link entries are
  applied in order, each by one \<open>replace\<close> on the text so far. An entry whose token
  does not occur leaves the text as it is; otherwise the first (leftmost) occurrence of
  the token, and only that one, is replaced by the expanded URL, provided that the
  expanded URL has no character \<open>$\<close> (nothing is stated about an expanded URL with
  one). Further occurrences stay unless further entries name the token again.
\<close>

theorem links_replace_first_occurrence:
  "tweetTextExpandedLinks tx [] = tx
   \<and> tweetTextExpandedLinks tx ((linkShortened, linkExpanded) # links)
       = tweetTextExpandedLinks (replace tx linkShortened linkExpanded) links
   \<and> (indexOf tx linkShortened = None \<longrightarrow>
        replace tx linkShortened linkExpanded = tx
        \<and> (\<forall>k\<le>length tx. \<not> prefix linkShortened (drop k tx)))
   \<and> (indexOf tx linkShortened = Some n \<and> CHR ''$'' \<notin> set linkExpanded \<longrightarrow>
        replace tx linkShortened linkExpanded
          = take n tx @ linkExpanded @ drop (n + length linkShortened) tx
        \<and> take (length linkShortened) (drop n tx) = linkShortened
        \<and> (\<forall>k<n. \<not> prefix linkShortened (drop k tx)))
   \<and> (processTweet tr table (c, lp) i = Inr (c', lp') \<longrightarrow>
        (\<exists>tw h el d. table i = Some tw
           \<and> tr (heap c) i (tweetTextExpandedLinks (full_text tw) (urls tw)) lp
               = Inr (h, el, lp', d)))"
proof -
  have p5: "\<exists>tw h el d. table i = Some tw
           \<and> tr (heap c) i (tweetTextExpandedLinks (full_text tw) (urls tw)) lp
               = Inr (h, el, lp', d)"
    if "processTweet tr table (c, lp) i = Inr (c', lp')"
    using that unfolding processTweet_Inr by blast
  show ?thesis
    using indexOf_None [of tx linkShortened] indexOf_Some [of tx linkShortened n]
      replace_first [of tx linkShortened n linkExpanded]
      replace_absent [of tx linkShortened linkExpanded] p5
    by (simp add: tweetTextExpandedLinks_def)
qed

theorem links_replace_first_occurrence_witness:
  "tweetTextExpandedLinks ''t.co/a t.co/a'' [(''t.co/a'', ''X''), (''t.co/a'', ''Y'')] = ''X Y''
   \<and> replace ''see t.co/a'' ''t.co/a'' ''X'' = ''see X''"
proof -
  have i: "indexOf ''see t.co/a'' ''t.co/a'' = Some 4 \<and> CHR ''$'' \<notin> set ''X''"
    by simp
  from links_replace_first_occurrence [where tx = "''see t.co/a''" and linkShortened = "''t.co/a''"
      and linkExpanded = "''X''" and n = 4, THEN conjunct2, THEN conjunct2, THEN conjunct2,
      THEN conjunct1, THEN mp, OF i]
  show ?thesis by (simp add: tweetTextExpandedLinks_def replace_def)
qed

text \<open>
  Claim C3: the continuation's descriptive text is to be appended to the primary's
  descriptive text with a blank-line separator exactly when both texts are non-empty,
  and with no separator when either is empty. The code does so for a primary that has a
  descriptive text (\<open>hello\<close> and \<open>world\<close> give \<open>hello\<close>, a blank line, \<open>world\<close>). For
  a primary whose descriptive text is empty it does not: the posts \<open>title: A\<close> and
  \<open>desc: world\<close> leave the record with a blank line in front of \<open>world\<close>. The guard on
  the separator tests the continuation's text, which is never empty in that branch, and
  never the primary's.
\<close>

theorem separator_despite_empty_primary:
  "processCollection (eventsTransform exampleLoad) exampleEmptyPrimary
     = Inr \<lparr> heap = [exampleEvent ([CHR 0x0A, CHR 0x0A] @ ''world'')], dataset = [0],
             errors = [], hash = [''title: A'', ''desc: world''] \<rparr>
   \<and> eventsTransform exampleLoad [exampleEvent []] ''2'' ''desc: world'' (Some 0)
     = Inr ([exampleEvent ([CHR 0x0A, CHR 0x0A] @ ''world'')], None, Some 0, None)
   \<and> eventsTransform_v2 exampleLoad [exampleEvent []] ''2'' ''desc: world'' (Some 0)
     = Inr ([exampleEvent ([CHR 0x0A, CHR 0x0A] @ ''world'')], None, Some 0, None)
   \<and> handleContinuation [exampleEvent []] (Some 0) ''world''
     = Inr ([exampleEvent ([CHR 0x0A, CHR 0x0A] @ ''world'')], None, Some 0, None)
   \<and> descriptive (exampleEvent []) = []
   \<and> exampleEvent ([CHR 0x0A, CHR 0x0A] @ ''world'') \<noteq> exampleEvent ''world''
   \<and> eventsTransform exampleLoad [exampleEvent ''hello''] ''2'' ''desc: world'' (Some 0)
     = Inr ([exampleEvent (''hello'' @ [CHR 0x0A, CHR 0x0A] @ ''world'')], None, Some 0, None)"
  by (simp add: run_defs exampleEmptyPrimary_def handleContinuation_def eventsTransform_v2_eq
        exampleEvent_def trim_world)

text \<open>
  Claim C6: the category of an error descriptor is \<open>Invalid YAML\<close> exactly when the
  document failed to decode (and the descriptor then carries the decoder's reason and
  mark). A document that decodes and lacks a required field is reported as
  \<open>Invalid structure\<close>, never as \<open>Invalid YAML\<close>: an event without title (that is
  not a continuation, for which no title is required), an event with an entry of
  \<open>times\<close> without day or time, a bulletin without date or title or with an
  invalid link, a bulletin with an insert without title or with an invalid link.
\<close>

theorem error_categories:
  fixes store :: "event list" and bstore :: "bulletin list"
  shows "(eventsTransform load store i tx lp = Inr (h, el, l, Some d) \<longrightarrow>
            (error d = ''Invalid YAML'' \<longleftrightarrow> (\<exists>r m. load tx = Inl (r, m))))
       \<and> (bulletinsTransform load validURL bstore i tx lp = Inr (bh, bel, bl, Some d) \<longrightarrow>
            (error d = ''Invalid YAML'' \<longleftrightarrow> (\<exists>r m. load tx = Inl (r, m))))
       \<and> (load tx = Inl (r, m) \<longrightarrow>
            eventsTransform load store i tx lp =
              Inr (store, None, None,
                   Some \<lparr> error = ''Invalid YAML'', type = ''YAMLException'',
                          reason = Message r, mark = m, tweetId = Some i \<rparr>)
          \<and> bulletinsTransform load validURL bstore i tx lp =
              Inr (bstore, None, None,
                   Some \<lparr> error = ''Invalid YAML'', type = ''YAMLException'',
                          reason = Message r, mark = m, tweetId = Some i \<rparr>))
       \<and> (load tx = Inr document \<and> \<not> truthy (getProp document ''title'')
            \<and> \<not> isContinuation document \<longrightarrow>
            (\<exists>msg. eventsTransform load store i tx lp
                     = Inr (store, None, None, Some (invalidStructure msg i))))
       \<and> (load tx = Inr document \<and> \<not> isContinuation document
            \<and> iterate (orDefault (getProp document ''times'') (Arr [])) = Inr entries
            \<and> entry \<in> set entries
            \<and> (\<not> truthy (getProp entry ''day'') \<or> \<not> truthy (getProp entry ''time'')) \<longrightarrow>
            (\<exists>msg. eventsTransform load store i tx lp
                     = Inr (store, None, None, Some (invalidStructure msg i))))
       \<and> (load tx = Inr document
            \<and> (\<not> truthy (getProp document ''date'') \<or> \<not> truthy (getProp document ''title'')
                 \<or> \<not> validURL (getProp document ''link'')) \<longrightarrow>
            (\<exists>msg. bulletinsTransform load validURL bstore i tx lp
                     = Inr (bstore, None, None, Some (invalidStructure msg i))))
       \<and> (load tx = Inr document
            \<and> iterate (orDefault (getProp document ''inserts'') (Arr [])) = Inr entries
            \<and> entry \<in> set entries
            \<and> (\<not> truthy (getProp entry ''title'') \<or> \<not> validURL (getProp entry ''link'')) \<longrightarrow>
            (\<exists>msg. bulletinsTransform load validURL bstore i tx lp
                     = Inr (bstore, None, None, Some (invalidStructure msg i))))"
proof -
  have ev: "\<exists>msg. eventsTransform load store i tx lp
                     = Inr (store, None, None, Some (invalidStructure msg i))"
    if "\<exists>msg. eventsTry load store tx lp = Inl (TypeError msg)"
    using that by (auto simp: eventsTransform_Inl catchBlock_def invalidStructure_def)
  have bu: "\<exists>msg. bulletinsTransform load validURL bstore i tx lp
                     = Inr (bstore, None, None, Some (invalidStructure msg i))"
    if "\<exists>msg. bulletinsTry load validURL bstore tx = Inl (TypeError msg)"
    using that by (auto simp: bulletinsTransform_Inl catchBlock_def invalidStructure_def)
  have p1: "error d = ''Invalid YAML'' \<longleftrightarrow> (\<exists>r m. load tx = Inl (r, m))"
    if "eventsTransform load store i tx lp = Inr (h, el, l, Some d)"
    using that by (rule events_invalid_yaml_iff)
  have p2: "error d = ''Invalid YAML'' \<longleftrightarrow> (\<exists>r m. load tx = Inl (r, m))"
    if "bulletinsTransform load validURL bstore i tx lp = Inr (bh, bel, bl, Some d)"
    using that by (rule bulletins_invalid_yaml_iff)
  have p3: "eventsTransform load store i tx lp =
              Inr (store, None, None,
                   Some \<lparr> error = ''Invalid YAML'', type = ''YAMLException'',
                          reason = Message r, mark = m, tweetId = Some i \<rparr>)
          \<and> bulletinsTransform load validURL bstore i tx lp =
              Inr (bstore, None, None,
                   Some \<lparr> error = ''Invalid YAML'', type = ''YAMLException'',
                          reason = Message r, mark = m, tweetId = Some i \<rparr>)"
    if "load tx = Inl (r, m)"
    using that
    by (simp add: eventsTransform_Inl bulletinsTransform_Inl eventsTry_decode_error
          bulletinsTry_decode_error catchBlock_def)
  have p4: "\<exists>msg. eventsTransform load store i tx lp
                     = Inr (store, None, None, Some (invalidStructure msg i))"
    if "load tx = Inr document \<and> \<not> truthy (getProp document ''title'')
            \<and> \<not> isContinuation document"
    using that by (intro ev eventsTry_title_missing [where document = document]) auto
  have p5: "\<exists>msg. eventsTransform load store i tx lp
                     = Inr (store, None, None, Some (invalidStructure msg i))"
    if "load tx = Inr document \<and> \<not> isContinuation document
            \<and> iterate (orDefault (getProp document ''times'') (Arr [])) = Inr entries
            \<and> entry \<in> set entries
            \<and> (\<not> truthy (getProp entry ''day'') \<or> \<not> truthy (getProp entry ''time''))"
    using that
    by (intro ev eventsTry_bad_times [where document = document and entries = entries
          and entry = entry]) auto
  have p6: "\<exists>msg. bulletinsTransform load validURL bstore i tx lp
                     = Inr (bstore, None, None, Some (invalidStructure msg i))"
    if "load tx = Inr document
            \<and> (\<not> truthy (getProp document ''date'') \<or> \<not> truthy (getProp document ''title'')
                 \<or> \<not> validURL (getProp document ''link''))"
    using that by (intro bu bulletinsTry_missing_field [where document = document]) auto
  have p7: "\<exists>msg. bulletinsTransform load validURL bstore i tx lp
                     = Inr (bstore, None, None, Some (invalidStructure msg i))"
    if "load tx = Inr document
            \<and> iterate (orDefault (getProp document ''inserts'') (Arr [])) = Inr entries
            \<and> entry \<in> set entries
            \<and> (\<not> truthy (getProp entry ''title'') \<or> \<not> validURL (getProp entry ''link''))"
    using that
    by (intro bu bulletinsTry_bad_insert [where document = document and entries = entries
          and entry = entry]) auto
  from p1 p2 p3 p4 p5 p6 p7 show ?thesis by blast
qed

theorem error_categories_witness:
  "eventsTransform exampleLoad [] ''5'' ''title: ['' None
     = Inr ([], None, None, Some (invalidYAML ''5''))
   \<and> eventsTransform exampleLoad [] ''5'' ''sub: x'' None
     = Inr ([], None, None, Some (invalidStructure (Message ''Title missing'') ''5''))
   \<and> eventsTransform exampleLoad [] ''5'' exampleTimesText None
     = Inr ([], None, None, Some (invalidStructure (Message ''Day/date or time missing'') ''5''))
   \<and> bulletinsTransform exampleLoad exampleURL [] ''5'' exampleBulletinText None
     = Inr ([], None, None,
            Some (invalidStructure (Message ''Bulletin link missing or invalid'') ''5''))"
proof -
  have y: "exampleLoad ''title: [''
      = Inl (''unexpected end of the stream within a flow collection'',
             Some \<lparr> position = 8, line = 1, column = 0 \<rparr>)"
    by (simp add: exampleLoad_def)
  have t: "exampleLoad ''sub: x'' = Inr (Obj [(''sub'', Str ''x'')])
      \<and> \<not> truthy (getProp (Obj [(''sub'', Str ''x'')]) ''title'')
      \<and> \<not> isContinuation (Obj [(''sub'', Str ''x'')])"
    by (simp add: exampleLoad_def isContinuation_def)
  have b: "exampleLoad exampleBulletinText
        = Inr (Obj [(''date'', Str ''May 3''), (''title'', Str ''B''),
                    (''link'', Str ''not-a-url'')])
      \<and> (\<not> truthy (getProp (Obj [(''date'', Str ''May 3''), (''title'', Str ''B''),
                    (''link'', Str ''not-a-url'')]) ''date'')
         \<or> \<not> truthy (getProp (Obj [(''date'', Str ''May 3''), (''title'', Str ''B''),
                    (''link'', Str ''not-a-url'')]) ''title'')
         \<or> \<not> exampleURL (getProp (Obj [(''date'', Str ''May 3''), (''title'', Str ''B''),
                    (''link'', Str ''not-a-url'')]) ''link''))"
    by (simp add: exampleLoad_def exampleBulletinText_def exampleURL_def)
  have c1: "eventsTransform exampleLoad [] ''5'' ''title: ['' None
     = Inr ([], None, None, Some (invalidYAML ''5''))"
    using error_categories [where load = exampleLoad and tx = "''title: [''" and i = "''5''"
        and store = "[]" and lp = None
        and r = "''unexpected end of the stream within a flow collection''"
        and m = "Some \<lparr> position = 8, line = 1, column = 0 \<rparr>" and bstore = "[]"
        and validURL = exampleURL,
        THEN conjunct2, THEN conjunct2, THEN conjunct1, THEN mp, OF y]
    by (simp add: invalidYAML_def)
  have c2: "\<exists>msg. eventsTransform exampleLoad [] ''5'' ''sub: x'' None
     = Inr ([], None, None, Some (invalidStructure msg ''5''))"
    using error_categories [where load = exampleLoad and tx = "''sub: x''" and i = "''5''"
        and store = "[]" and lp = None and document = "Obj [(''sub'', Str ''x'')]",
        THEN conjunct2, THEN conjunct2, THEN conjunct2, THEN conjunct1, THEN mp, OF t] .
  have c4: "\<exists>msg. bulletinsTransform exampleLoad exampleURL [] ''5'' exampleBulletinText None
     = Inr ([], None, None, Some (invalidStructure msg ''5''))"
    using error_categories [where load = exampleLoad and tx = exampleBulletinText
        and i = "''5''" and bstore = "[]" and lp = None and validURL = exampleURL
        and document = "Obj [(''date'', Str ''May 3''), (''title'', Str ''B''),
                    (''link'', Str ''not-a-url'')]",
        THEN conjunct2, THEN conjunct2, THEN conjunct2, THEN conjunct2, THEN conjunct2,
        THEN conjunct1, THEN mp, OF b] .
  from c1 c2 c4 show ?thesis
    by (simp add: eventsTransform_def eventsTry_def bulletinsTransform_def bulletinsTry_def
          yamlLoad_def exampleLoad_def catchBlock_def invalidStructure_def exampleURL_def
          exampleTimesText_def exampleBulletinText_def)
qed

text \<open>
  Claim C7: in the revision with the dry-run option, when the four collections are
  processed and every computed digest is the published digest at the same position, a run
  without \<open>dryRun\<close> writes nothing (it only reports that there are no updates); a run
  with \<open>dryRun\<close> logs the content and never writes, whatever the digests. In
  \<^verbatim>\<open>src/index.js\<close>, which has no dry run, equal digests at the three positions
  likewise give no write.
\<close>

theorem no_publish_when_unchanged:
  "(processCollection (announcementsTransform load) announcementsResponse = Inr ca
      \<and> processCollection (eventsTransform_v2 load) regularEventsResponse = Inr cr
      \<and> processCollection (eventsTransform_v2 load) specialEventsResponse = Inr cs
      \<and> processCollection (bulletinsTransform_v2 load validURL) bulletinsResponse = Inr cb
      \<and> nthOrUndefined published 0 = Str (digest (hash ca))
      \<and> nthOrUndefined published 1 = Str (digest (hash cr))
      \<and> nthOrUndefined published 2 = Str (digest (hash cs))
      \<and> nthOrUndefined published 3 = Str (digest (hash cb))
    \<longrightarrow> agent_v2 load validURL False announcementsResponse regularEventsResponse
          specialEventsResponse bulletinsResponse published sha = NoUpdates)
   \<and> (processCollection (announcementsTransform load) announcementsResponse = Inr ca
      \<and> processCollection (eventsTransform_v2 load) regularEventsResponse = Inr cr
      \<and> processCollection (eventsTransform_v2 load) specialEventsResponse = Inr cs
      \<and> processCollection (bulletinsTransform_v2 load validURL) bulletinsResponse = Inr cb
    \<longrightarrow> agent_v2 load validURL True announcementsResponse regularEventsResponse
          specialEventsResponse bulletinsResponse published sha =
        Logged \<lparr> announcements = elements ca, regularEvents = elements cr,
                 specialEvents = elements cs, bulletins = elements cb,
                 digests = [digest (hash ca), digest (hash cr), digest (hash cs),
                            digest (hash cb)],
                 announcementsErrors = errors ca, regularEventsErrors = errors cr,
                 specialEventsErrors = errors cs, bulletinsErrors = errors cb \<rparr>)
   \<and> agent_v2 load validURL True announcementsResponse regularEventsResponse
          specialEventsResponse bulletinsResponse published sha \<noteq> Commit msg content token
   \<and> (processCollection (eventsTransform load) regularEventsResponse = Inr cr
      \<and> processCollection (eventsTransform load) specialEventsResponse = Inr cs
      \<and> processCollection (bulletinsTransform load validURL) bulletinsResponse = Inr cb'
      \<and> nthOrUndefined published 0 = Str (digest (hash cr))
      \<and> nthOrUndefined published 1 = Str (digest (hash cs))
      \<and> nthOrUndefined published 2 = Str (digest (hash cb'))
    \<longrightarrow> agent load validURL regularEventsResponse specialEventsResponse bulletinsResponse
          published sha = NoUpdates)"
proof -
  have p1: "agent_v2 load validURL False announcementsResponse regularEventsResponse
          specialEventsResponse bulletinsResponse published sha = NoUpdates"
    if "processCollection (announcementsTransform load) announcementsResponse = Inr ca
      \<and> processCollection (eventsTransform_v2 load) regularEventsResponse = Inr cr
      \<and> processCollection (eventsTransform_v2 load) specialEventsResponse = Inr cs
      \<and> processCollection (bulletinsTransform_v2 load validURL) bulletinsResponse = Inr cb
      \<and> nthOrUndefined published 0 = Str (digest (hash ca))
      \<and> nthOrUndefined published 1 = Str (digest (hash cr))
      \<and> nthOrUndefined published 2 = Str (digest (hash cs))
      \<and> nthOrUndefined published 3 = Str (digest (hash cb))"
    using that by (simp add: agent_v2_def differs_def)
  have p2: "agent_v2 load validURL True announcementsResponse regularEventsResponse
          specialEventsResponse bulletinsResponse published sha =
        Logged \<lparr> announcements = elements ca, regularEvents = elements cr,
                 specialEvents = elements cs, bulletins = elements cb,
                 digests = [digest (hash ca), digest (hash cr), digest (hash cs),
                            digest (hash cb)],
                 announcementsErrors = errors ca, regularEventsErrors = errors cr,
                 specialEventsErrors = errors cs, bulletinsErrors = errors cb \<rparr>"
    if "processCollection (announcementsTransform load) announcementsResponse = Inr ca
      \<and> processCollection (eventsTransform_v2 load) regularEventsResponse = Inr cr
      \<and> processCollection (eventsTransform_v2 load) specialEventsResponse = Inr cs
      \<and> processCollection (bulletinsTransform_v2 load validURL) bulletinsResponse = Inr cb"
    using that by (simp add: agent_v2_def Let_def)
  have p3: "agent_v2 load validURL True announcementsResponse regularEventsResponse
          specialEventsResponse bulletinsResponse published sha \<noteq> Commit msg content token"
    by (simp add: agent_v2_def Let_def andThen_def split: sum.splits)
  have p4: "agent load validURL regularEventsResponse specialEventsResponse bulletinsResponse
          published sha = NoUpdates"
    if "processCollection (eventsTransform load) regularEventsResponse = Inr cr
      \<and> processCollection (eventsTransform load) specialEventsResponse = Inr cs
      \<and> processCollection (bulletinsTransform load validURL) bulletinsResponse = Inr cb'
      \<and> nthOrUndefined published 0 = Str (digest (hash cr))
      \<and> nthOrUndefined published 1 = Str (digest (hash cs))
      \<and> nthOrUndefined published 2 = Str (digest (hash cb'))"
    using that by (simp add: agent_def differs_def)
  from p1 p2 p3 p4 show ?thesis by blast
qed

theorem no_publish_when_unchanged_witness:
  "agent_v2 exampleLoad exampleURL False noTweets noTweets noTweets noTweets
     [Str digestOfNothing, Str digestOfNothing, Str digestOfNothing, Str digestOfNothing]
     ''token'' = NoUpdates
   \<and> agent_v2 exampleLoad exampleURL True noTweets noTweets noTweets noTweets
     [Str digestOfNothing, Str digestOfNothing, Str digestOfNothing, Str digestOfNothing]
     ''token'' =
       Logged \<lparr> announcements = [], regularEvents = [], specialEvents = [], bulletins = [],
                digests = [digestOfNothing, digestOfNothing, digestOfNothing, digestOfNothing],
                announcementsErrors = [], regularEventsErrors = [],
                specialEventsErrors = [], bulletinsErrors = [] \<rparr>"
proof -
  let ?p = "[Str digestOfNothing, Str digestOfNothing, Str digestOfNothing, Str digestOfNothing]"
  have d: "digest (hash (emptyCollection :: 'e collection)) = digestOfNothing" for dummy :: 'e
    by (simp add: emptyCollection_def digest_createHash)
  have h2: "processCollection (announcementsTransform exampleLoad) noTweets = Inr emptyCollection
      \<and> processCollection (eventsTransform_v2 exampleLoad) noTweets = Inr emptyCollection
      \<and> processCollection (eventsTransform_v2 exampleLoad) noTweets = Inr emptyCollection
      \<and> processCollection (bulletinsTransform_v2 exampleLoad exampleURL) noTweets
          = Inr emptyCollection"
    by (simp add: processCollection_noTweets)
  have h: "processCollection (announcementsTransform exampleLoad) noTweets = Inr emptyCollection
      \<and> processCollection (eventsTransform_v2 exampleLoad) noTweets = Inr emptyCollection
      \<and> processCollection (eventsTransform_v2 exampleLoad) noTweets = Inr emptyCollection
      \<and> processCollection (bulletinsTransform_v2 exampleLoad exampleURL) noTweets
          = Inr emptyCollection
      \<and> nthOrUndefined ?p 0 = Str (digest (hash (emptyCollection :: announcement collection)))
      \<and> nthOrUndefined ?p 1 = Str (digest (hash (emptyCollection :: event collection)))
      \<and> nthOrUndefined ?p 2 = Str (digest (hash (emptyCollection :: event collection)))
      \<and> nthOrUndefined ?p 3 = Str (digest (hash (emptyCollection :: bulletin collection)))"
    by (simp add: processCollection_noTweets nthOrUndefined_def d)
  note inst = no_publish_when_unchanged [where load = exampleLoad and validURL = exampleURL
      and announcementsResponse = noTweets and regularEventsResponse = noTweets
      and specialEventsResponse = noTweets and bulletinsResponse = noTweets
      and published = ?p and sha = "''token''"
      and ca = emptyCollection and cr = emptyCollection and cs = emptyCollection
      and cb = emptyCollection]
  from inst [THEN conjunct1, THEN mp, OF h] inst [THEN conjunct2, THEN conjunct1, THEN mp, OF h2]
  show ?thesis by (simp add: elements_def emptyCollection_def digest_createHash)
qed

end
